theory Spec2Isabelle
  imports Complex_Main "HOL-Library.Char_ord" "HOL-Library.List_Lexorder"
    "HOL-Library.Product_Lexorder" "HOL-Library.Multiset"
begin

section \<open>Numbers: pandas float64 cells\<close>

text \<open>
  Every numeric cell of the data frames in \<^verbatim>\<open>src/etl/transform.py\<close> is a float64.
  A cell is modelled as an exact real number, one of the two infinities, or NaN
  (pandas' missing value). Arithmetic follows IEEE 754 on the special values (a
  non-zero number divided by zero is an infinity, \<open>0/0\<close> and \<open>inf - inf\<close> are NaN,
  every comparison with NaN is false). The sign of zero, overflow and underflow
  are not modelled. The cells of the indicator columns are computed in exact
  arithmetic; where the program decides a discrete result from computed values
  (the nearest Fibonacci level, the fourth decimal of a variation) the model
  rounds every operation to float64 with \<open>fl64\<close> below.
\<close>

datatype f64 = Num real | PInf | NInf | NaN

fun notna :: "f64 \<Rightarrow> bool" where
  "notna NaN = False"
| "notna _ = True"

fun is_num :: "f64 \<Rightarrow> bool" where
  "is_num (Num a) = True"
| "is_num _ = False"

fun the_num :: "f64 \<Rightarrow> real" where
  "the_num (Num a) = a"
| "the_num _ = 0"

fun fneg :: "f64 \<Rightarrow> f64" where
  "fneg (Num a) = Num (- a)"
| "fneg PInf = NInf"
| "fneg NInf = PInf"
| "fneg NaN = NaN"

fun fadd :: "f64 \<Rightarrow> f64 \<Rightarrow> f64" where
  "fadd (Num a) (Num b) = Num (a + b)"
| "fadd NaN b = NaN"
| "fadd a NaN = NaN"
| "fadd PInf NInf = NaN"
| "fadd NInf PInf = NaN"
| "fadd PInf b = PInf"
| "fadd a PInf = PInf"
| "fadd NInf b = NInf"
| "fadd a NInf = NInf"

definition fsub :: "f64 \<Rightarrow> f64 \<Rightarrow> f64" where
  "fsub a b = fadd a (fneg b)"

fun fmul :: "f64 \<Rightarrow> f64 \<Rightarrow> f64" where
  "fmul (Num a) (Num b) = Num (a * b)"
| "fmul NaN b = NaN"
| "fmul a NaN = NaN"
| "fmul PInf (Num b) = (if b = 0 then NaN else if 0 < b then PInf else NInf)"
| "fmul NInf (Num b) = (if b = 0 then NaN else if 0 < b then NInf else PInf)"
| "fmul (Num a) PInf = (if a = 0 then NaN else if 0 < a then PInf else NInf)"
| "fmul (Num a) NInf = (if a = 0 then NaN else if 0 < a then NInf else PInf)"
| "fmul PInf PInf = PInf"
| "fmul NInf NInf = PInf"
| "fmul PInf NInf = NInf"
| "fmul NInf PInf = NInf"

fun fdiv :: "f64 \<Rightarrow> f64 \<Rightarrow> f64" where
  "fdiv (Num a) (Num b) =
     (if b \<noteq> 0 then Num (a / b)
      else if 0 < a then PInf else if a < 0 then NInf else NaN)"
| "fdiv NaN b = NaN"
| "fdiv a NaN = NaN"
| "fdiv (Num a) PInf = Num 0"
| "fdiv (Num a) NInf = Num 0"
| "fdiv PInf (Num b) = (if 0 \<le> b then PInf else NInf)"
| "fdiv NInf (Num b) = (if 0 \<le> b then NInf else PInf)"
| "fdiv a b = NaN"

fun fabs :: "f64 \<Rightarrow> f64" where
  "fabs (Num a) = Num \<bar>a\<bar>"
| "fabs PInf = PInf"
| "fabs NInf = PInf"
| "fabs NaN = NaN"

fun flt :: "f64 \<Rightarrow> f64 \<Rightarrow> bool" where
  "flt (Num a) (Num b) = (a < b)"
| "flt NaN b = False"
| "flt a NaN = False"
| "flt a NInf = False"
| "flt PInf b = False"
| "flt NInf b = True"
| "flt a PInf = True"

definition fgt :: "f64 \<Rightarrow> f64 \<Rightarrow> bool" where
  "fgt a b = flt b a"

text \<open>Rounding to \<open>nd\<close> decimals, ties to the even neighbour (Python's \<^verbatim>\<open>round\<close>).\<close>

definition round_half_even :: "real \<Rightarrow> int" where
  "round_half_even y =
     (let f = \<lfloor>y\<rfloor>; d = y - of_int f
      in if d < 1/2 then f else if 1/2 < d then f + 1
         else if even f then f else f + 1)"

definition round_dec :: "nat \<Rightarrow> real \<Rightarrow> real" where
  "round_dec nd x = of_int (round_half_even (x * 10 ^ nd)) / 10 ^ nd"

subsection \<open>Rounding to float64\<close>

text \<open>\<open>fl64 x\<close> is the float64 nearest to \<open>x\<close>, ties to the even mantissa: with
  \<open>2^e \<le> |x| < 2^(e+1)\<close> the result is the multiple of \<open>2^(e-52)\<close> nearest to \<open>x\<close>.
  \<open>expo\<close> finds \<open>e\<close> by doubling or halving; 2200 steps cover every float64.\<close>

fun expo :: "nat \<Rightarrow> real \<Rightarrow> int" where
  "expo 0 x = 0"
| "expo (Suc n) x =
     (if x < 1 then expo n (2 * x) - 1 else if 2 \<le> x then expo n (x / 2) + 1 else 0)"

definition pow2 :: "int \<Rightarrow> real" where
  "pow2 e = (if 0 \<le> e then 2 ^ nat e else 1 / 2 ^ nat (- e))"

definition fl64 :: "real \<Rightarrow> real" where
  "fl64 x =
     (if x = 0 then 0
      else (let e = expo 2200 \<bar>x\<bar>; u = pow2 (e - 52)
            in of_int (round_half_even (x / u)) * u))"

fun frnd :: "f64 \<Rightarrow> f64" where
  "frnd (Num a) = Num (fl64 a)"
| "frnd x = x"

text \<open>The float64 operations: the exact result, rounded.\<close>

definition fsub64 :: "f64 \<Rightarrow> f64 \<Rightarrow> f64" where
  "fsub64 a b = frnd (fsub a b)"

definition fmul64 :: "f64 \<Rightarrow> f64 \<Rightarrow> f64" where
  "fmul64 a b = frnd (fmul a b)"

definition fdiv64 :: "f64 \<Rightarrow> f64 \<Rightarrow> f64" where
  "fdiv64 a b = frnd (fdiv a b)"

text \<open>\<^verbatim>\<open>Series.round(nd)\<close> is \<^verbatim>\<open>numpy.round(x, nd)\<close>, which on a float64 is
  \<^verbatim>\<open>true_divide(rint(x * 10**nd), 10**nd)\<close>; the special values are left as they
  are.\<close>

definition round_np :: "nat \<Rightarrow> real \<Rightarrow> real" where
  "round_np nd x = fl64 (of_int (round_half_even (fl64 (x * 10 ^ nd))) / 10 ^ nd)"

fun fround_np :: "nat \<Rightarrow> f64 \<Rightarrow> f64" where
  "fround_np nd (Num a) = Num (round_np nd a)"
| "fround_np nd x = x"

section \<open>The pandas operations the transform uses\<close>

text \<open>A Series is the list of its cells in row order.\<close>

type_synonym series = "f64 list"

text \<open>\<^verbatim>\<open>Series.shift(n)\<close>: the first \<open>n\<close> cells become NaN.\<close>

definition shift :: "nat \<Rightarrow> series \<Rightarrow> series" where
  "shift n xs = replicate (min n (length xs)) NaN @ take (length xs - n) xs"

text \<open>\<^verbatim>\<open>Series.diff()\<close>: each cell minus the one before it.\<close>

definition series_diff :: "series \<Rightarrow> series" where
  "series_diff xs = map (\<lambda>(a, b). fsub a b) (zip xs (shift 1 xs))"

text \<open>\<^verbatim>\<open>Series.clip(lower=0)\<close> and \<^verbatim>\<open>Series.clip(upper=0)\<close>; NaN stays NaN.\<close>

definition clip_lower0 :: "series \<Rightarrow> series" where
  "clip_lower0 xs = map (\<lambda>x. if flt x (Num 0) then Num 0 else x) xs"

definition clip_upper0 :: "series \<Rightarrow> series" where
  "clip_upper0 xs = map (\<lambda>x. if fgt x (Num 0) then Num 0 else x) xs"

definition fsum :: "series \<Rightarrow> f64" where
  "fsum xs = foldl fadd (Num 0) xs"

text \<open>The trailing window of width \<open>w\<close> that ends at row \<open>i\<close>.\<close>

definition window :: "nat \<Rightarrow> 'a list \<Rightarrow> nat \<Rightarrow> 'a list" where
  "window w xs i = take w (drop (Suc i - w) xs)"

text \<open>The window operations (\<^verbatim>\<open>rolling\<close>, \<^verbatim>\<open>ewm\<close>) first replace every infinite cell
  by NaN.\<close>

definition prep_values :: "series \<Rightarrow> series" where
  "prep_values xs = map (\<lambda>x. if is_num x then x else NaN) xs"

text \<open>\<^verbatim>\<open>Series.rolling(window=w).mean()\<close>: \<^verbatim>\<open>min_periods\<close> defaults to \<open>w\<close>, so a
  row with fewer than \<open>w\<close> observations in its window (too early, or a NaN inside)
  is NaN.\<close>

definition rolling_mean :: "nat \<Rightarrow> series \<Rightarrow> series" where
  "rolling_mean w xs =
     (let vs = prep_values xs
      in map (\<lambda>i. if Suc i < w then NaN else fdiv (fsum (window w vs i)) (Num (real w)))
           [0..<length vs])"

text \<open>\<^verbatim>\<open>Series.rolling(window=w).std()\<close>: the sample standard deviation (ddof = 1)
  of a full window of numbers.\<close>

definition sample_std :: "series \<Rightarrow> f64" where
  "sample_std win =
     (if list_all is_num win then
        (let vs = map the_num win; n = real (length vs); m = sum_list vs / n
         in Num (sqrt (sum_list (map (\<lambda>v. (v - m)\<^sup>2) vs) / (n - 1))))
      else NaN)"

definition rolling_std :: "nat \<Rightarrow> series \<Rightarrow> series" where
  "rolling_std w xs =
     (let vs = prep_values xs
      in map (\<lambda>i. if Suc i < w \<or> w < 2 then NaN else sample_std (window w vs i))
           [0..<length vs])"

text \<open>
  \<^verbatim>\<open>Series.ewm(span=s, adjust=False).mean()\<close>. pandas walks the series once with
  the running weighted average \<open>weighted\<close> and the weight \<open>old_wt\<close> of the past:
  \<^verbatim>\<open>
    alpha = 1 / (1 + com), com = (span - 1) / 2
    weighted = vals[0]; old_wt = 1; output[0] = weighted
    for cur in vals[1:]:
        if weighted == weighted:
            old_wt *= 1 - alpha
            if cur == cur:
                if weighted != cur:
                    weighted = (old_wt * weighted + alpha * cur) / (old_wt + alpha)
                old_wt = 1
        elif cur == cur:
            weighted = cur
        output[i] = weighted
  \<close>
  The values are those left by \<open>prep_values\<close>, so an infinite close counts as
  missing. After a gap of NaN cells the past weighs \<open>(1 - alpha)\<close> to the power of
  the rows passed, the rule pandas documents for \<^verbatim>\<open>ignore_na=False\<close>; pandas
  releases differ on the value after a gap, and the statements below are about
  series without gaps.
\<close>

definition ewm_alpha :: "real \<Rightarrow> real" where
  "ewm_alpha sp = 1 / (1 + (sp - 1) / 2)"

definition ewm_step :: "real \<Rightarrow> f64 \<times> real \<Rightarrow> f64 \<Rightarrow> f64 \<times> real" where
  "ewm_step alpha st cur =
     (let weighted = fst st; old_wt = snd st in
      if notna weighted then
        (let old_wt' = old_wt * (1 - alpha) in
         if notna cur then
           ((if weighted \<noteq> cur
             then fdiv (fadd (fmul (Num old_wt') weighted) (fmul (Num alpha) cur))
                    (Num (old_wt' + alpha))
             else weighted), 1)
         else (weighted, old_wt'))
      else if notna cur then (cur, old_wt)
      else (weighted, old_wt))"

fun ewm_loop :: "real \<Rightarrow> f64 \<times> real \<Rightarrow> series \<Rightarrow> series" where
  "ewm_loop alpha st [] = []"
| "ewm_loop alpha st (cur # rest) =
     (let st' = ewm_step alpha st cur in fst st' # ewm_loop alpha st' rest)"

definition ewm_mean :: "real \<Rightarrow> series \<Rightarrow> series" where
  "ewm_mean sp xs =
     (case prep_values xs of
        [] \<Rightarrow> []
      | x # rest \<Rightarrow> x # ewm_loop (ewm_alpha sp) (x, 1) rest)"

text \<open>Maximum and minimum that skip NaN (\<^verbatim>\<open>skipna=True\<close>); NaN when nothing is left.\<close>

fun fmax2 :: "f64 \<Rightarrow> f64 \<Rightarrow> f64" where
  "fmax2 NaN b = b"
| "fmax2 a NaN = a"
| "fmax2 a b = (if flt a b then b else a)"

fun fmin2 :: "f64 \<Rightarrow> f64 \<Rightarrow> f64" where
  "fmin2 NaN b = b"
| "fmin2 a NaN = a"
| "fmin2 a b = (if flt b a then b else a)"

definition nanmax :: "series \<Rightarrow> f64" where
  "nanmax xs = foldr fmax2 xs NaN"

definition nanmin :: "series \<Rightarrow> f64" where
  "nanmin xs = foldr fmin2 xs NaN"

text \<open>\<^verbatim>\<open>numpy.sign\<close>, \<^verbatim>\<open>Series.fillna(0)\<close> and \<^verbatim>\<open>Series.cumsum()\<close> (which leaves a NaN
  cell NaN and keeps summing after it).\<close>

fun fsign :: "f64 \<Rightarrow> f64" where
  "fsign (Num a) = Num (sgn a)"
| "fsign PInf = Num 1"
| "fsign NInf = Num (- 1)"
| "fsign NaN = NaN"

definition fillna0 :: "series \<Rightarrow> series" where
  "fillna0 xs = map (\<lambda>x. if notna x then x else Num 0) xs"

fun cumsum_from :: "f64 \<Rightarrow> series \<Rightarrow> series" where
  "cumsum_from acc [] = []"
| "cumsum_from acc (x # xs) =
     (if notna x then fadd acc x # cumsum_from (fadd acc x) xs
      else NaN # cumsum_from acc xs)"

definition cumsum :: "series \<Rightarrow> series" where
  "cumsum xs = cumsum_from (Num 0) xs"

text \<open>\<^verbatim>\<open>ffill\<close> (the last valid observation is carried forward) and
  \<^verbatim>\<open>pct_change(periods)\<close> of one group, which pandas computes in float64 as
  \<^verbatim>\<open>filled / filled.shift(periods) - 1\<close>. Before pandas 3.0 \<open>filled\<close> is the
  forward-filled series (the default \<^verbatim>\<open>fill_method\<close>), from 3.0 on it is the series
  itself. The repository pins no version, so the default is the parameter \<open>fill\<close>.\<close>

fun ffill_from :: "f64 \<Rightarrow> series \<Rightarrow> series" where
  "ffill_from prev [] = []"
| "ffill_from prev (x # xs) =
     (if notna x then x # ffill_from x xs else prev # ffill_from prev xs)"

definition ffill :: "series \<Rightarrow> series" where
  "ffill xs = ffill_from NaN xs"

definition pct_change :: "bool \<Rightarrow> nat \<Rightarrow> series \<Rightarrow> series" where
  "pct_change fill periods xs =
     (let filled = (if fill then ffill xs else xs); shifted = shift periods filled
      in map (\<lambda>(a, b). fsub64 (fdiv64 a b) (Num 1)) (zip filled shifted))"

section \<open>SeriesMath: RSI, MACD, ATR, OBV\<close>

definition calcular_rsi :: "series \<Rightarrow> nat \<Rightarrow> series" where
  "calcular_rsi close w =
     (let delta = series_diff close;
          gain = clip_lower0 delta;
          loss = map fneg (clip_upper0 delta);
          avg_gain = rolling_mean w gain;
          avg_loss = rolling_mean w loss;
          rs = map (\<lambda>(g, l). fdiv g l) (zip avg_gain avg_loss);
          rsi = map (\<lambda>r. fsub (Num 100) (fdiv (Num 100) (fadd (Num 1) r))) rs
      in rsi)"

definition calcular_macd :: "series \<Rightarrow> real \<Rightarrow> real \<Rightarrow> real \<Rightarrow> series \<times> series \<times> series" where
  "calcular_macd close short long signal =
     (let ema_short = ewm_mean short close;
          ema_long = ewm_mean long close;
          macd = map (\<lambda>(a, b). fsub a b) (zip ema_short ema_long);
          macd_signal = ewm_mean signal macd;
          macd_hist = map (\<lambda>(a, b). fsub a b) (zip macd macd_signal)
      in (macd, macd_signal, macd_hist))"

definition calcular_atr :: "series \<Rightarrow> series \<Rightarrow> series \<Rightarrow> nat \<Rightarrow> series" where
  "calcular_atr high low close w =
     (let high_low = map (\<lambda>(h, l). fsub h l) (zip high low);
          high_close = map fabs (map (\<lambda>(h, c). fsub h c) (zip high (shift 1 close)));
          low_close = map fabs (map (\<lambda>(l, c). fsub l c) (zip low (shift 1 close)));
          ranges = zip high_low (zip high_close low_close);
          true_range = map (\<lambda>(a, b, c). nanmax [a, b, c]) ranges;
          atr = rolling_mean w true_range
      in atr)"

definition calcular_obv :: "series \<Rightarrow> series \<Rightarrow> series" where
  "calcular_obv close volume =
     cumsum (fillna0 (map (\<lambda>(s, v). fmul s v) (zip (map fsign (series_diff close)) volume)))"

section \<open>Tables\<close>

text \<open>A table is the list of its rows. \<open>Date\<close> is the parsed timestamp; a text cell
  that may be empty after a CSV round trip is a \<open>string option\<close>.\<close>

record key_row =
  Date :: int
  Ticker :: string
  Close :: f64

record price_row = key_row +
  Open :: f64
  High :: f64
  Low :: f64
  Volume :: f64

record indicator_row = key_row +
  SMA_20 :: f64
  SMA_50 :: f64
  EMA_20 :: f64
  RSI_14 :: f64
  MACD :: f64
  MACD_Signal :: f64
  MACD_Hist :: f64
  ATR_14 :: f64
  OBV :: f64
  BB_Middle :: f64
  BB_Upper :: f64
  BB_Lower :: f64
  Volatility_20 :: f64
  Fib_0_0 :: f64
  Fib_23_6 :: f64
  Fib_38_2 :: f64
  Fib_50_0 :: f64
  Fib_61_8 :: f64
  Fib_100 :: f64
  Nivel_Fib_Cercano :: "string option"
  Estado_Fibonacci :: "string option"

record joined_row = indicator_row +
  PER :: f64
  ROE :: f64
  EPS_Growth_YoY :: f64
  Deuda_Patrimonio :: f64

record variation_row = key_row +
  var_daily :: f64
  var_weekly :: f64
  var_monthly :: f64
  var_annual :: f64
  var_5y :: f64

record decision_row =
  d_Ticker :: string
  pct_Tecnico_Buy :: f64
  pct_Fundamental_Buy :: f64
  Decision_Final :: string
  Estado_BollingerBands :: "string option"
  d_SMA_vs_EMA :: "string option"
  d_MACD :: "string option"
  d_RSI :: "string option"
  d_PER :: "string option"
  d_ROE :: "string option"
  d_EPS_Growth_YoY :: "string option"
  d_Deuda_Patrimonio :: "string option"
  d_Estado_Fibonacci :: "string option"

datatype py_error = ValueError | IndexError

text \<open>\<^verbatim>\<open>df.sort_values(by=['Ticker', 'Date'])\<close> and \<^verbatim>\<open>df.groupby('Ticker')\<close>: the groups
  come in the order of their keys, each with its rows in the order of the frame.\<close>

definition sort_values :: "('a key_row_scheme) list \<Rightarrow> ('a key_row_scheme) list" where
  "sort_values df = sort_key (\<lambda>r. (Ticker r, Date r)) df"

definition group_keys :: "('a key_row_scheme) list \<Rightarrow> string list" where
  "group_keys df = sort (remdups (map Ticker df))"

definition get_group :: "('a key_row_scheme) list \<Rightarrow> string \<Rightarrow> ('a key_row_scheme) list" where
  "get_group df k = filter (\<lambda>r. Ticker r = k) df"

text \<open>\<^verbatim>\<open>pd.concat(frames)\<close> raises \<^verbatim>\<open>ValueError: No objects to concatenate\<close> on an
  empty list.\<close>

definition pd_concat :: "'a list list \<Rightarrow> py_error + 'a list" where
  "pd_concat frames = (if frames = [] then Inl ValueError else Inr (concat frames))"

section \<open>IndicatorEngine\<close>

text \<open>\<^verbatim>\<open>min(diffs, key=diffs.get)\<close> over the dict in insertion order: a later key
  replaces the running minimum only when its value is strictly smaller.\<close>

fun min_key :: "(string \<times> f64) list \<Rightarrow> string \<times> f64 \<Rightarrow> string" where
  "min_key [] best = fst best"
| "min_key (kv # rest) best = min_key rest (if flt (snd kv) (snd best) then kv else best)"

text \<open>The six level columns of one group, from the extremes of its whole \<open>Close\<close>
  column.\<close>

definition fib_columns :: "series \<Rightarrow> f64 \<times> f64 \<times> f64 \<times> f64 \<times> f64 \<times> f64" where
  "fib_columns close =
     (let max_close = nanmax close;
          min_close = nanmin close;
          diff = fsub max_close min_close
      in (max_close,
          fsub max_close (fmul diff (Num 0.236)),
          fsub max_close (fmul diff (Num 0.382)),
          fsub max_close (fmul diff (Num 0.50)),
          fsub max_close (fmul diff (Num 0.618)),
          min_close))"

text \<open>The same six levels as the float64 values the program holds: every operation
  and every decimal constant rounded. The nearest level is decided by comparing
  float64 distances to these.\<close>

definition fib_columns_f64 :: "series \<Rightarrow> f64 \<times> f64 \<times> f64 \<times> f64 \<times> f64 \<times> f64" where
  "fib_columns_f64 close =
     (let max_close = nanmax close;
          min_close = nanmin close;
          diff = fsub64 max_close min_close
      in (max_close,
          fsub64 max_close (fmul64 diff (Num (fl64 0.236))),
          fsub64 max_close (fmul64 diff (Num (fl64 0.382))),
          fsub64 max_close (fmul64 diff (Num (fl64 0.50))),
          fsub64 max_close (fmul64 diff (Num (fl64 0.618))),
          min_close))"

definition nivel_cercano :: "f64 \<Rightarrow> f64 \<times> f64 \<times> f64 \<times> f64 \<times> f64 \<times> f64 \<Rightarrow> string" where
  "nivel_cercano ultimo_close fibs =
     (case fibs of (f0, f23, f38, f50, f61, f100) \<Rightarrow>
        min_key
          [(''23.6%'', fabs (fsub64 ultimo_close f23)),
           (''38.2%'', fabs (fsub64 ultimo_close f38)),
           (''50.0%'', fabs (fsub64 ultimo_close f50)),
           (''61.8%'', fabs (fsub64 ultimo_close f61)),
           (''100%'', fabs (fsub64 ultimo_close f100))]
          (''0.0%'', fabs (fsub64 ultimo_close f0)))"

definition estado_fib :: "string \<Rightarrow> string" where
  "estado_fib nivel =
     (if nivel \<in> set [''38.2%'', ''50.0%'', ''61.8%''] then ''SOPORTE''
      else if nivel \<in> set [''0.0%'', ''23.6%''] then ''RESISTENCIA''
      else ''NEUTRO'')"

text \<open>The body of the loop over the groups, for a group that has a last row.\<close>

definition filas_grupo :: "price_row list \<Rightarrow> indicator_row list" where
  "filas_grupo grp =
     (let close = map Close grp;
          sma_20 = rolling_mean 20 close;
          sma_50 = rolling_mean 50 close;
          ema_20 = ewm_mean 20 close;
          rsi_14 = calcular_rsi close 14;
          m = calcular_macd close 12 26 9;
          atr_14 = calcular_atr (map High grp) (map Low grp) close 14;
          obv = calcular_obv close (map Volume grp);
          bb_middle = rolling_mean 20 close;
          bb_upper = map (\<lambda>(a, b). fadd a (fmul (Num 2) b)) (zip bb_middle (rolling_std 20 close));
          bb_lower = map (\<lambda>(a, b). fsub a (fmul (Num 2) b)) (zip bb_middle (rolling_std 20 close));
          volatility_20 = rolling_std 20 close;
          fibs = fib_columns close;
          ultimo_close = Close (last grp);
          nivel = nivel_cercano ultimo_close (fib_columns_f64 close);
          estado = estado_fib nivel
      in map (\<lambda>i.
           \<lparr>Date = Date (grp ! i), Ticker = Ticker (grp ! i), Close = Close (grp ! i),
            SMA_20 = sma_20 ! i, SMA_50 = sma_50 ! i, EMA_20 = ema_20 ! i,
            RSI_14 = rsi_14 ! i,
            MACD = fst m ! i, MACD_Signal = fst (snd m) ! i, MACD_Hist = snd (snd m) ! i,
            ATR_14 = atr_14 ! i, OBV = obv ! i,
            BB_Middle = bb_middle ! i, BB_Upper = bb_upper ! i, BB_Lower = bb_lower ! i,
            Volatility_20 = volatility_20 ! i,
            Fib_0_0 = fst fibs, Fib_23_6 = fst (snd fibs), Fib_38_2 = fst (snd (snd fibs)),
            Fib_50_0 = fst (snd (snd (snd fibs))),
            Fib_61_8 = fst (snd (snd (snd (snd fibs)))),
            Fib_100 = snd (snd (snd (snd (snd fibs)))),
            Nivel_Fib_Cercano = Some nivel, Estado_Fibonacci = Some estado\<rparr>)
         [0..<length grp])"

text \<open>\<^verbatim>\<open>group.iloc[-1]\<close> raises IndexError on a frame without rows.\<close>

definition indicadores_grupo :: "price_row list \<Rightarrow> py_error + indicator_row list" where
  "indicadores_grupo grp = (if grp = [] then Inl IndexError else Inr (filas_grupo grp))"

fun collect :: "(py_error + 'a) list \<Rightarrow> py_error + 'a list" where
  "collect [] = Inr []"
| "collect (x # xs) =
     (case x of Inl e \<Rightarrow> Inl e
      | Inr v \<Rightarrow> (case collect xs of Inl e \<Rightarrow> Inl e | Inr vs \<Rightarrow> Inr (v # vs)))"

definition calcular_indicadores_tecnicos :: "price_row list \<Rightarrow> py_error + indicator_row list" where
  "calcular_indicadores_tecnicos input =
     (let df = sort_values input in
      case collect (map (\<lambda>k. indicadores_grupo (get_group df k)) (group_keys df)) of
        Inl e \<Rightarrow> Inl e
      | Inr indicadores \<Rightarrow> pd_concat indicadores)"

section \<open>SignalAggregator\<close>

text \<open>Assignment to a dict key: an existing key keeps its place, a new one is appended.\<close>

fun dict_set :: "string \<Rightarrow> string \<Rightarrow> (string \<times> string) list \<Rightarrow> (string \<times> string) list" where
  "dict_set k v [] = [(k, v)]"
| "dict_set k v (p # ps) = (if fst p = k then (k, v) # ps else p # dict_set k v ps)"

definition senales_tec :: "'a joined_row_scheme \<Rightarrow> (string \<times> string) list" where
  "senales_tec row =
     (let s0 = [];
          s1 = (if notna (SMA_20 row) \<and> notna (EMA_20 row)
                then dict_set ''SMA_vs_EMA''
                       (if fgt (SMA_20 row) (EMA_20 row) then ''COMPRAR'' else ''VENDER'') s0
                else s0);
          s2 = (if notna (MACD row) \<and> notna (MACD_Signal row)
                then dict_set ''MACD''
                       (if fgt (MACD row) (MACD_Signal row) then ''COMPRAR'' else ''VENDER'') s1
                else s1);
          s3 = (if notna (RSI_14 row)
                then dict_set ''RSI''
                       (if flt (RSI_14 row) (Num 30) then ''COMPRAR''
                        else if fgt (RSI_14 row) (Num 70) then ''VENDER''
                        else ''MANTENER'') s2
                else s2);
          s4 = (case Estado_Fibonacci row of
                  None \<Rightarrow> s3
                | Some e \<Rightarrow>
                    dict_set ''Estado_Fibonacci''
                      (if e = ''SOPORTE'' then ''COMPRAR''
                       else if e = ''RESISTENCIA'' then ''VENDER''
                       else ''MANTENER'') s3)
      in s4)"

definition senales_fund :: "'a joined_row_scheme \<Rightarrow> (string \<times> string) list" where
  "senales_fund row =
     (let s0 = [];
          s1 = (if notna (PER row)
                then dict_set ''PER''
                       (if flt (PER row) (Num 20) then ''COMPRAR''
                        else if fgt (PER row) (Num 30) then ''VENDER''
                        else ''MANTENER'') s0
                else s0);
          s2 = (if notna (ROE row)
                then dict_set ''ROE''
                       (if fgt (ROE row) (Num 0.15) then ''COMPRAR''
                        else if flt (ROE row) (Num 0.05) then ''VENDER''
                        else ''MANTENER'') s1
                else s1);
          s3 = (if notna (EPS_Growth_YoY row)
                then dict_set ''EPS Growth YoY''
                       (if fgt (EPS_Growth_YoY row) (Num 0.10) then ''COMPRAR''
                        else if flt (EPS_Growth_YoY row) (Num 0) then ''VENDER''
                        else ''MANTENER'') s2
                else s2);
          s4 = (if notna (Deuda_Patrimonio row)
                then dict_set ''Deuda/Patrimonio''
                       (if flt (Deuda_Patrimonio row) (Num 100) then ''COMPRAR''
                        else if fgt (Deuda_Patrimonio row) (Num 200) then ''VENDER''
                        else ''MANTENER'') s3
                else s3)
      in s4)"

definition estado_bb :: "'a joined_row_scheme \<Rightarrow> string option" where
  "estado_bb row =
     (if notna (BB_Upper row) \<and> notna (BB_Lower row) \<and> notna (Close row) then
        (if fgt (Close row) (BB_Upper row) then Some ''Sobrecompra''
         else if flt (Close row) (BB_Lower row) then Some ''Sobreventa''
         else Some ''Normal'')
      else None)"

definition pct_buy :: "(string \<times> string) list \<Rightarrow> f64" where
  "pct_buy senales =
     (if length senales > 0
      then Num (round_dec 2
             (real (count_list (map snd senales) ''COMPRAR'') / real (length senales) * 100))
      else NaN)"

definition resumen_fila :: "'a joined_row_scheme \<Rightarrow> decision_row" where
  "resumen_fila row =
     (let tec = senales_tec row;
          fund = senales_fund row;
          compras = count_list (map snd tec) ''COMPRAR'' + count_list (map snd fund) ''COMPRAR'';
          ventas = count_list (map snd tec) ''VENDER'' + count_list (map snd fund) ''VENDER'';
          decision = (if compras > ventas then ''COMPRAR''
                      else if ventas > compras then ''VENDER''
                      else ''MANTENER'')
      in \<lparr>d_Ticker = Ticker row,
          pct_Tecnico_Buy = pct_buy tec,
          pct_Fundamental_Buy = pct_buy fund,
          Decision_Final = decision,
          Estado_BollingerBands = estado_bb row,
          d_SMA_vs_EMA = map_of tec ''SMA_vs_EMA'',
          d_MACD = map_of tec ''MACD'',
          d_RSI = map_of tec ''RSI'',
          d_PER = map_of fund ''PER'',
          d_ROE = map_of fund ''ROE'',
          d_EPS_Growth_YoY = map_of fund ''EPS Growth YoY'',
          d_Deuda_Patrimonio = map_of fund ''Deuda/Patrimonio'',
          d_Estado_Fibonacci = Estado_Fibonacci row\<rparr>)"

text \<open>The loop over the rows of the merged frame.\<close>

definition calcular_resumen_inversion :: "('a joined_row_scheme) list \<Rightarrow> decision_row list" where
  "calcular_resumen_inversion df = map resumen_fila df"

section \<open>VariationEngine\<close>

text \<open>\<^verbatim>\<open>df.groupby("Ticker")["Close"].pct_change(periods=days).round(4)\<close> is a column
  aligned with the rows of \<open>df\<close>: the row at position \<open>p\<close> takes the cell of its own
  group's series at the row's rank inside the group. \<open>fill\<close> is the default of
  \<open>pct_change\<close> in the installed pandas.\<close>

definition group_rank :: "('a key_row_scheme) list \<Rightarrow> nat \<Rightarrow> nat" where
  "group_rank df p = length (get_group (take p df) (Ticker (df ! p)))"

definition var_column :: "bool \<Rightarrow> nat \<Rightarrow> ('a key_row_scheme) list \<Rightarrow> series" where
  "var_column fill days df =
     map (\<lambda>p. map (fround_np 4)
                  (pct_change fill days (map Close (get_group df (Ticker (df ! p)))))
                ! group_rank df p)
       [0..<length df]"

definition calcular_variaciones_precios ::
  "bool \<Rightarrow> ('a key_row_scheme) list \<Rightarrow> variation_row list" where
  "calcular_variaciones_precios fill input =
     (let df = sort_values input;
          daily = var_column fill 1 df;
          weekly = var_column fill 5 df;
          monthly = var_column fill 21 df;
          annual = var_column fill 252 df;
          y5 = var_column fill (252 * 5) df
      in map (\<lambda>p. \<lparr>Date = Date (df ! p), Ticker = Ticker (df ! p), Close = Close (df ! p),
                    var_daily = daily ! p, var_weekly = weekly ! p, var_monthly = monthly ! p,
                    var_annual = annual ! p, var_5y = y5 ! p\<rparr>)
           [0..<length df])"

section \<open>The recursion of the specification for the exponential moving average\<close>

text \<open>\<open>ema_spec a w cs\<close> continues the recursion \<open>ema[i] = a * c[i] + (1 - a) * ema[i-1]\<close>
  after the value \<open>w\<close> over the closes \<open>cs\<close>. It is the specification's formula, used
  only to state what \<open>ewm_mean\<close> computes.\<close>

fun ema_spec :: "real \<Rightarrow> real \<Rightarrow> real list \<Rightarrow> real list" where
  "ema_spec a w [] = []"
| "ema_spec a w (c # cs) = (a * c + (1 - a) * w) # ema_spec a (a * c + (1 - a) * w) cs"

text \<open>\<open>ema_recursion a c e\<close> says that the series \<open>e\<close> obeys that recursion on \<open>c\<close> with
  smoothing factor \<open>a\<close>, seeded at the first observation.\<close>

definition ema_recursion :: "real \<Rightarrow> real list \<Rightarrow> real list \<Rightarrow> bool" where
  "ema_recursion a c e \<longleftrightarrow>
     length e = length c \<and> e ! 0 = c ! 0 \<and>
     (\<forall>i. 0 < i \<and> i < length c \<longrightarrow> e ! i = a * c ! i + (1 - a) * e ! (i - 1))"

section \<open>The formula of the specification for one variation cell\<close>

text \<open>\<open>var_cell x y\<close> is the variation from the earlier close \<open>y\<close> to the close \<open>x\<close>:
  for two numbers with \<open>y\<close> not zero the float64 value of \<open>x / y - 1\<close> (in exact
  arithmetic the specification's \<open>(x - y) / y\<close>) rounded to 4 decimals by numpy;
  for a zero \<open>y\<close> what the unguarded float division gives; NaN where a close is
  missing; the remaining rows are those of infinite closes. \<open>var_spec lag cs i\<close> is
  the cell at row \<open>i\<close> of the closes \<open>cs\<close> of one ticker: NaN on the first \<open>lag\<close> rows.
  Both are used only to state what \<open>calcular_variaciones_precios\<close> computes.\<close>

fun var_cell :: "f64 \<Rightarrow> f64 \<Rightarrow> f64" where
  "var_cell (Num a) (Num b) =
     (if b \<noteq> 0 then Num (round_np 4 (fl64 (fl64 (a / b) - 1)))
      else if 0 < a then PInf
      else if a < 0 then NInf
      else NaN)"
| "var_cell NaN y = NaN"
| "var_cell x NaN = NaN"
| "var_cell (Num a) y = Num (- 1)"
| "var_cell PInf (Num b) = (if 0 \<le> b then PInf else NInf)"
| "var_cell NInf (Num b) = (if 0 \<le> b then NInf else PInf)"
| "var_cell x y = NaN"

definition var_spec :: "nat \<Rightarrow> series \<Rightarrow> nat \<Rightarrow> f64" where
  "var_spec lag cs i = (if i < lag then NaN else var_cell (cs ! i) (cs ! (i - lag)))"

section \<open>Auxiliary notions for the proofs\<close>

text \<open>A cell that is not negative: a number \<open>\<ge> 0\<close>, \<open>+inf\<close>, or NaN.\<close>

fun nn :: "f64 \<Rightarrow> bool" where
  "nn (Num a) = (0 \<le> a)"
| "nn PInf = True"
| "nn NInf = False"
| "nn NaN = True"

text \<open>The last two lines of \<open>calcular_rsi\<close> on one row: \<open>rs\<close> and \<open>rsi\<close> from the two
  rolling means.\<close>

definition rsi_cell :: "f64 \<Rightarrow> f64 \<Rightarrow> f64" where
  "rsi_cell g l = fsub (Num 100) (fdiv (Num 100) (fadd (Num 1) (fdiv g l)))"

text \<open>The first five lines of \<open>calcular_atr\<close>: the true range column.\<close>

definition true_range :: "series \<Rightarrow> series \<Rightarrow> series \<Rightarrow> series" where
  "true_range high low close =
     (let high_low = map (\<lambda>(h, l). fsub h l) (zip high low);
          high_close = map fabs (map (\<lambda>(h, c). fsub h c) (zip high (shift 1 close)));
          low_close = map fabs (map (\<lambda>(l, c). fsub l c) (zip low (shift 1 close)));
          ranges = zip high_low (zip high_close low_close)
      in map (\<lambda>(a, b, c). nanmax [a, b, c]) ranges)"

text \<open>The list \<open>indicadores\<close> that the loop of \<open>calcular_indicadores_tecnicos\<close> builds:
  one frame per group, in the order of the keys.\<close>

definition frames :: "price_row list \<Rightarrow> indicator_row list list" where
  "frames input =
     map (\<lambda>k. filas_grupo (get_group (sort_values input) k)) (group_keys (sort_values input))"

section \<open>Sample inputs\<close>

definition rising :: series where
  "rising = map Num [1, 2, 3, 4, 5, 6, 7, 8, 9, 10, 11, 12, 13, 14, 15]"

definition flat :: series where
  "flat = map Num [7, 7, 7, 7, 7, 7, 7, 7, 7, 7, 7, 7, 7, 7, 7]"

definition mixed :: series where
  "mixed = map Num [1, 2, 3, 4, 5, 6, 7, 8, 9, 10, 11, 12, 13, 14, 13]"


definition fila_incompleta :: joined_row where
  "fila_incompleta =
     \<lparr>Date = 20240102, Ticker = ''BBB'', Close = Num 50,
      SMA_20 = NaN, SMA_50 = NaN, EMA_20 = Num 49, RSI_14 = Num 50,
      MACD = Num 1.0, MACD_Signal = Num 0.5, MACD_Hist = Num 0.5,
      ATR_14 = NaN, OBV = Num 1000,
      BB_Middle = NaN, BB_Upper = NaN, BB_Lower = NaN, Volatility_20 = NaN,
      Fib_0_0 = Num 60, Fib_23_6 = Num 55.28, Fib_38_2 = Num 52.36, Fib_50_0 = Num 50,
      Fib_61_8 = Num 47.64, Fib_100 = Num 40,
      Nivel_Fib_Cercano = None, Estado_Fibonacci = None,
      PER = NaN, ROE = NaN, EPS_Growth_YoY = NaN, Deuda_Patrimonio = NaN\<rparr>"

text \<open>A price table with two tickers, out of order, one of them with a single row.\<close>

definition precio :: "int \<Rightarrow> string \<Rightarrow> real \<Rightarrow> price_row" where
  "precio d t c =
     \<lparr>Date = d, Ticker = t, Close = Num c,
      Open = Num c, High = Num (c + 1), Low = Num (c - 1), Volume = Num 1000\<rparr>"

definition tabla_ejemplo :: "price_row list" where
  "tabla_ejemplo =
     [precio 3 ''AAA'' 110, precio 1 ''B'' 7, precio 1 ''AAA'' 100, precio 2 ''AAA'' 120]"

text \<open>Twenty days of one ticker, enough to fill a window of 20.\<close>

definition tabla_20 :: "price_row list" where
  "tabla_20 =
     [precio 1 ''AAA'' 9, precio 2 ''AAA'' 11, precio 3 ''AAA'' 9, precio 4 ''AAA'' 11,
      precio 5 ''AAA'' 9, precio 6 ''AAA'' 11, precio 7 ''AAA'' 9, precio 8 ''AAA'' 11,
      precio 9 ''AAA'' 9, precio 10 ''AAA'' 11, precio 11 ''AAA'' 9, precio 12 ''AAA'' 11,
      precio 13 ''AAA'' 9, precio 14 ''AAA'' 11, precio 15 ''AAA'' 9, precio 16 ''AAA'' 11,
      precio 17 ''AAA'' 9, precio 18 ''AAA'' 11, precio 19 ''AAA'' 9, precio 20 ''AAA'' 11]"

text \<open>The example of the specification for the variations, and a ticker whose
  first close is zero.\<close>

definition tabla_variacion :: "price_row list" where
  "tabla_variacion = [precio 1 ''AAA'' 100, precio 2 ''AAA'' 110, precio 3 ''AAA'' 121]"

definition tabla_cero :: "price_row list" where
  "tabla_cero = [precio 1 ''B'' 0, precio 2 ''B'' 5]"

text \<open>A ticker whose variation is 0.00005 in exact arithmetic, a tie of the fourth
  decimal.\<close>

definition tabla_redondeo :: "price_row list" where
  "tabla_redondeo = [precio 1 ''C'' 10000, precio 2 ''C'' 10000.5]"


section \<open>Evaluating the float64 rounding\<close>

text \<open>On a literal, \<open>fl64\<close> is computed by unfolding \<open>expo\<close> along the binary numeral of
  its step bound.\<close>

lemma expo_numeral:
  "expo (numeral k) x =
     (if x < 1 then expo (pred_numeral k) (2 * x) - 1
      else if 2 \<le> x then expo (pred_numeral k) (x / 2) + 1 else 0)"
  by (simp add: numeral_eq_Suc)

lemmas fl64_eval = fl64_def Let_def expo_numeral pow2_def round_half_even_def

section \<open>Exponential moving average\<close>

lemma length_ema_spec: "length (ema_spec a w cs) = length cs"
  by (induction cs arbitrary: w) auto

lemma ema_spec_nth:
  "i < length cs \<Longrightarrow>
   (w # ema_spec a w cs) ! Suc i = a * cs ! i + (1 - a) * (w # ema_spec a w cs) ! i"
proof (induction cs arbitrary: w i)
  case Nil
  then show ?case by simp
next
  case (Cons c cs)
  show ?case
  proof (cases i)
    case 0
    then show ?thesis by simp
  next
    case (Suc j)
    with Cons.prems have "j < length cs" by simp
    from Cons.IH[OF this, of "a * c + (1 - a) * w"] Suc show ?thesis by simp
  qed
qed

lemma ewm_step_num:
  "ewm_step a (Num w, 1) (Num c) = (Num (a * c + (1 - a) * w), 1)"
  by (simp add: ewm_step_def Let_def algebra_simps)

lemma ewm_loop_num:
  "ewm_loop a (Num w, 1) (map Num cs) = map Num (ema_spec a w cs)"
  by (induction cs arbitrary: w) (simp_all add: ewm_step_num)

lemma ewm_alpha_eq: "ewm_alpha sp = 2 / (sp + 1)"
  by (simp add: ewm_alpha_def field_simps)

lemma length_prep_values: "length (prep_values xs) = length xs"
  by (simp add: prep_values_def)

lemma prep_values_num: "prep_values (map Num vs) = map Num vs"
  by (simp add: prep_values_def)

lemma ewm_mean_num:
  "ewm_mean sp (map Num (c # cs)) = map Num (c # ema_spec (ewm_alpha sp) c cs)"
proof -
  have "prep_values (map Num (c # cs)) = Num c # map Num cs"
    using prep_values_num[of "c # cs"] by simp
  then show ?thesis by (simp add: ewm_mean_def ewm_loop_num)
qed

lemma length_ewm_loop: "length (ewm_loop a st xs) = length xs"
  by (induction xs arbitrary: st) (simp_all add: Let_def)

lemma length_ewm_mean: "length (ewm_mean sp xs) = length xs"
proof -
  have "length (ewm_mean sp xs) = length (prep_values xs)"
    by (cases "prep_values xs") (simp_all add: ewm_mean_def length_ewm_loop)
  then show ?thesis by (simp only: length_prep_values)
qed

lemma ema_recursion_spec: "ema_recursion a (c0 # cs) (c0 # ema_spec a c0 cs)"
proof -
  have "(c0 # ema_spec a c0 cs) ! i
          = a * (c0 # cs) ! i + (1 - a) * (c0 # ema_spec a c0 cs) ! (i - 1)"
    if "0 < i \<and> i < length (c0 # cs)" for i
  proof -
    from that obtain j where j: "i = Suc j" "j < length cs" by (cases i) auto
    from ema_spec_nth[OF j(2), of c0 a] show ?thesis by (simp add: j)
  qed
  then show ?thesis by (simp add: ema_recursion_def length_ema_spec)
qed

lemma ema_recursion_unique:
  assumes "ema_recursion a (c0 # cs) e"
  shows "e = c0 # ema_spec a c0 cs"
proof (rule nth_equalityI)
  from assms show len: "length e = length (c0 # ema_spec a c0 cs)"
    by (simp add: ema_recursion_def length_ema_spec)
  fix i assume "i < length e"
  with len have "i < Suc (length cs)" by (simp add: length_ema_spec)
  then show "e ! i = (c0 # ema_spec a c0 cs) ! i"
  proof (induction i)
    case 0
    from assms show ?case by (simp add: ema_recursion_def)
  next
    case (Suc j)
    then have j: "j < length cs" and ih: "e ! j = (c0 # ema_spec a c0 cs) ! j" by simp_all
    from assms j have "e ! Suc j = a * (c0 # cs) ! Suc j + (1 - a) * e ! j"
      by (simp add: ema_recursion_def)
    with ih ema_spec_nth[OF j, of c0 a] show ?case by simp
  qed
qed

lemma ewm_mean_ema_recursion:
  assumes "c \<noteq> []"
  shows "\<exists>e. ewm_mean sp (map Num c) = map Num e \<and> ema_recursion (2 / (sp + 1)) c e"
proof -
  from assms obtain c0 cs where c: "c = c0 # cs" by (cases c) auto
  have "ewm_mean sp (map Num c) = map Num (c0 # ema_spec (2 / (sp + 1)) c0 cs)"
    unfolding c ewm_alpha_eq[symmetric] by (rule ewm_mean_num)
  moreover have "ema_recursion (2 / (sp + 1)) c (c0 # ema_spec (2 / (sp + 1)) c0 cs)"
    unfolding c by (rule ema_recursion_spec)
  ultimately show ?thesis by blast
qed

lemma ema_recursion_length: "ema_recursion a c e \<Longrightarrow> length e = length c"
  by (simp add: ema_recursion_def)

lemma zip_fsub_num:
  "map (\<lambda>(a, b). fsub a b) (zip (map Num xs) (map Num ys))
     = map Num (map (\<lambda>(a, b). a - b) (zip xs ys))"
  by (simp add: zip_map_map fsub_def split_def)

lemma calcular_macd_num:
  assumes "c \<noteq> []"
  shows "\<exists>s l m g. ema_recursion (2 / 13) c s \<and> ema_recursion (2 / 27) c l \<and>
     m = map (\<lambda>(a, b). a - b) (zip s l) \<and> ema_recursion (2 / 10) m g \<and>
     calcular_macd (map Num c) 12 26 9
       = (map Num m, map Num g, map Num (map (\<lambda>(a, b). a - b) (zip m g)))"
proof -
  from ewm_mean_ema_recursion[OF assms, of 12] obtain s where
    s: "ewm_mean 12 (map Num c) = map Num s" "ema_recursion (2 / 13) c s" by auto
  from ewm_mean_ema_recursion[OF assms, of 26] obtain l where
    l: "ewm_mean 26 (map Num c) = map Num l" "ema_recursion (2 / 27) c l" by auto
  let ?m = "map (\<lambda>(a, b). a - b) (zip s l)"
  from ema_recursion_length[OF s(2)] ema_recursion_length[OF l(2)] assms
  have "?m \<noteq> []" by (cases s; cases l) simp_all
  from ewm_mean_ema_recursion[OF this, of 9] obtain g where
    g: "ewm_mean 9 (map Num ?m) = map Num g" "ema_recursion (2 / 10) ?m g" by auto
  have "calcular_macd (map Num c) 12 26 9
       = (map Num ?m, map Num g, map Num (map (\<lambda>(a, b). a - b) (zip ?m g)))"
    by (simp only: calcular_macd_def Let_def s(1) l(1) zip_fsub_num g(1))
  with s(2) l(2) g(2) show ?thesis by blast
qed

lemma length_calcular_macd:
  "length (fst (calcular_macd close a b c)) = length close"
  "length (fst (snd (calcular_macd close a b c))) = length close"
  "length (snd (snd (calcular_macd close a b c))) = length close"
  by (simp_all add: calcular_macd_def Let_def length_ewm_mean)

section \<open>RSI\<close>

lemma length_shift: "length (shift n xs) = length xs"
  by (simp add: shift_def)

lemma length_series_diff: "length (series_diff xs) = length xs"
  by (simp add: series_diff_def length_shift)

lemma length_rolling_mean: "length (rolling_mean w xs) = length xs"
  by (simp add: rolling_mean_def Let_def length_prep_values)

lemma rolling_mean_nth:
  "i < length xs \<Longrightarrow> rolling_mean w xs ! i =
     (if Suc i < w then NaN else fdiv (fsum (window w (prep_values xs) i)) (Num (real w)))"
  by (simp add: rolling_mean_def Let_def length_prep_values)

lemma nn_prep_values: "list_all nn xs \<Longrightarrow> list_all nn (prep_values xs)"
  by (induction xs) (simp_all add: prep_values_def)

lemma nn_fadd: "nn a \<Longrightarrow> nn b \<Longrightarrow> nn (fadd a b)"
  by (cases a; cases b) auto

lemma nn_foldl_fadd: "nn acc \<Longrightarrow> list_all nn xs \<Longrightarrow> nn (foldl fadd acc xs)"
proof (induction xs arbitrary: acc)
  case Nil
  then show ?case by simp
next
  case (Cons x xs)
  from Cons.prems have "nn (fadd acc x)" by (simp add: nn_fadd)
  moreover from Cons.prems have "list_all nn xs" by simp
  ultimately have "nn (foldl fadd (fadd acc x) xs)" by (rule Cons.IH)
  then show ?case by simp
qed

lemma nn_fsum: "list_all nn xs \<Longrightarrow> nn (fsum xs)"
  by (simp add: fsum_def nn_foldl_fadd)

lemma nn_fdiv_nat: "nn a \<Longrightarrow> nn (fdiv a (Num (real w)))"
  by (cases a) auto

lemma list_all_window: "list_all P xs \<Longrightarrow> list_all P (window w xs i)"
  by (auto simp: window_def list_all_iff dest: in_set_takeD in_set_dropD)

lemma nn_rolling_mean:
  assumes "list_all nn xs"
  shows "list_all nn (rolling_mean w xs)"
proof -
  have "nn (rolling_mean w xs ! i)" if "i < length xs" for i
  proof -
    have "nn (fdiv (fsum (window w (prep_values xs) i)) (Num (real w)))"
      by (intro nn_fdiv_nat nn_fsum list_all_window nn_prep_values assms)
    then show ?thesis using that by (simp add: rolling_mean_nth)
  qed
  then show ?thesis by (simp add: list_all_length length_rolling_mean)
qed


lemma rsi_cell_bounded:
  assumes "nn g" "nn l"
  shows "rsi_cell g l = NaN \<or> (\<exists>v. rsi_cell g l = Num v \<and> 0 \<le> v \<and> v \<le> 100)"
proof (cases g; cases l)
  fix a b assume gl: "g = Num a" "l = Num b"
  with assms have ab: "0 \<le> a" "0 \<le> b" by auto
  show ?thesis
  proof (cases "b = 0")
    case True
    then show ?thesis using gl ab by (auto simp: rsi_cell_def fsub_def)
  next
    case False
    with ab have "0 \<le> a / b" by simp
    then have "0 < 1 + a / b" by linarith
    moreover have "100 / (1 + a / b) \<le> 100"
    proof -
      have "0 < 1 + a / b" using \<open>0 \<le> a / b\<close> by linarith
      then show ?thesis using \<open>0 \<le> a / b\<close> by (simp add: pos_divide_le_eq)
    qed
    ultimately show ?thesis using gl False by (auto simp: rsi_cell_def fsub_def)
  qed
qed (use assms in \<open>auto simp: rsi_cell_def fsub_def\<close>)

lemma calcular_rsi_nth:
  "i < length close \<Longrightarrow>
   calcular_rsi close w ! i =
     rsi_cell (rolling_mean w (clip_lower0 (series_diff close)) ! i)
       (rolling_mean w (map fneg (clip_upper0 (series_diff close))) ! i)"
  by (simp add: calcular_rsi_def Let_def rsi_cell_def length_rolling_mean clip_lower0_def
      clip_upper0_def length_series_diff)

lemma nn_clip_lower0: "list_all nn (clip_lower0 xs)"
proof -
  have "nn (if flt x (Num 0) then Num 0 else x)" for x by (cases x) auto
  then show ?thesis unfolding clip_lower0_def by (induction xs) simp_all
qed

lemma nn_loss: "list_all nn (map fneg (clip_upper0 xs))"
proof -
  have "nn (fneg (if fgt x (Num 0) then Num 0 else x))" for x by (cases x) (auto simp: fgt_def)
  then show ?thesis unfolding clip_upper0_def by (induction xs) simp_all
qed

lemma rsi_avgs_nn:
  assumes "i < length close"
  shows "nn (rolling_mean w (clip_lower0 (series_diff close)) ! i)"
    and "nn (rolling_mean w (map fneg (clip_upper0 (series_diff close))) ! i)"
proof -
  let ?g = "rolling_mean w (clip_lower0 (series_diff close))"
  let ?l = "rolling_mean w (map fneg (clip_upper0 (series_diff close)))"
  have "i < length ?g" "i < length ?l"
    using assms
    by (simp_all add: length_rolling_mean clip_lower0_def clip_upper0_def length_series_diff)
  moreover have "list_all nn ?g" "list_all nn ?l"
    by (simp_all add: nn_rolling_mean nn_clip_lower0 nn_loss)
  ultimately show "nn (?g ! i)" "nn (?l ! i)" by (simp_all add: list_all_length)
qed

text \<open>
  C7. At every row \<open>i\<close> of any close series, the RSI of window 14 is either NaN or
  a number in \<open>[0, 100]\<close>. With \<open>avg_gain\<close> and \<open>avg_loss\<close> the rolling means of the
  gains and losses at that row: when \<open>avg_loss > 0\<close> the value is
  \<open>100 - 100 / (1 + avg_gain / avg_loss)\<close>; when \<open>avg_loss = 0\<close> and \<open>avg_gain > 0\<close>
  it is 100 (\<open>rs\<close> is \<open>+inf\<close>); when both are zero it is NaN (\<open>0 / 0\<close>), with no
  special case in the code.
\<close>

theorem calcular_rsi_bounded:
  assumes "i < length close"
  shows "let avg_gain = rolling_mean 14 (clip_lower0 (series_diff close)) ! i;
             avg_loss = rolling_mean 14 (map fneg (clip_upper0 (series_diff close))) ! i;
             rsi = calcular_rsi close 14 ! i
         in (rsi = NaN \<or> (\<exists>v. rsi = Num v \<and> 0 \<le> v \<and> v \<le> 100)) \<and>
            (\<forall>g l. avg_gain = Num g \<and> avg_loss = Num l \<and> 0 < l \<longrightarrow>
                   rsi = Num (100 - 100 / (1 + g / l))) \<and>
            (\<forall>g. avg_gain = Num g \<and> 0 < g \<and> avg_loss = Num 0 \<longrightarrow> rsi = Num 100) \<and>
            (avg_gain = Num 0 \<and> avg_loss = Num 0 \<longrightarrow> rsi = NaN)"
proof -
  let ?g = "rolling_mean 14 (clip_lower0 (series_diff close)) ! i"
  let ?l = "rolling_mean 14 (map fneg (clip_upper0 (series_diff close))) ! i"
  note nn = rsi_avgs_nn[OF assms, of 14]
  have 0: "rsi_cell ?g ?l = NaN \<or> (\<exists>v. rsi_cell ?g ?l = Num v \<and> 0 \<le> v \<and> v \<le> 100)"
    by (rule rsi_cell_bounded[OF nn])
  have 1: "rsi_cell ?g ?l = Num (100 - 100 / (1 + g / l))"
    if "?g = Num g \<and> ?l = Num l \<and> 0 < l" for g l
  proof -
    from that nn(1) have "0 \<le> g" by simp
    with that have "0 \<le> g / l" by simp
    then have "1 + g / l \<noteq> 0" by linarith
    with that show ?thesis by (simp add: rsi_cell_def fsub_def)
  qed
  have 2: "rsi_cell ?g ?l = Num 100" if "?g = Num g \<and> 0 < g \<and> ?l = Num 0" for g
    using that by (simp add: rsi_cell_def fsub_def)
  have 3: "rsi_cell ?g ?l = NaN" if "?g = Num 0 \<and> ?l = Num 0"
    using that by (simp add: rsi_cell_def fsub_def)
  from 0 1 2 3 show ?thesis
    unfolding Let_def calcular_rsi_nth[OF assms] by blast
qed

theorem calcular_rsi_bounded_witness:
  "calcular_rsi rising 14 ! 14 = Num 100 \<and> calcular_rsi flat 14 ! 14 = NaN \<and>
   calcular_rsi mixed 14 ! 14 = Num (100 - 100 / (1 + (13 / 14) / (1 / 14)))"
proof -
  have l: "14 < length rising" "14 < length flat" "14 < length mixed"
    by (simp_all add: rising_def flat_def mixed_def)
  have a: "rolling_mean 14 (clip_lower0 (series_diff rising)) ! 14 = Num 1"
          "rolling_mean 14 (map fneg (clip_upper0 (series_diff rising))) ! 14 = Num 0"
          "rolling_mean 14 (clip_lower0 (series_diff flat)) ! 14 = Num 0"
          "rolling_mean 14 (map fneg (clip_upper0 (series_diff flat))) ! 14 = Num 0"
          "rolling_mean 14 (clip_lower0 (series_diff mixed)) ! 14 = Num (13 / 14)"
          "rolling_mean 14 (map fneg (clip_upper0 (series_diff mixed))) ! 14 = Num (1 / 14)"
    by code_simp+
  have 1: "calcular_rsi rising 14 ! 14 = Num 100"
    using calcular_rsi_bounded[OF l(1)] a(1,2) unfolding Let_def by simp
  have 2: "calcular_rsi flat 14 ! 14 = NaN"
    using calcular_rsi_bounded[OF l(2)] a(3,4) unfolding Let_def by simp
  have "\<And>g l. Num (13 / 14) = Num g \<and> Num (1 / 14) = Num l \<and> 0 < l \<Longrightarrow>
          calcular_rsi mixed 14 ! 14 = Num (100 - 100 / (1 + g / l))"
    using calcular_rsi_bounded[OF l(3)] unfolding Let_def a(5,6) by blast
  from this[of "13 / 14" "1 / 14"]
  have 3: "calcular_rsi mixed 14 ! 14 = Num (100 - 100 / (1 + (13 / 14) / (1 / 14)))"
    by simp
  from 1 2 3 show ?thesis by blast
qed

section \<open>ATR\<close>

lemma calcular_atr_true_range:
  "calcular_atr high low close w = rolling_mean w (true_range high low close)"
  by (simp add: calcular_atr_def true_range_def Let_def)

lemma shift1_nth:
  "i < length xs \<Longrightarrow> shift 1 xs ! i = (if i = 0 then NaN else xs ! (i - 1))"
  by (cases xs) (auto simp: shift_def nth_append nth_Cons split: nat.splits)

lemma length_true_range:
  "length high = n \<Longrightarrow> length low = n \<Longrightarrow> length close = n \<Longrightarrow>
   length (true_range high low close) = n"
  by (simp add: true_range_def Let_def length_shift)

lemma true_range_nth:
  assumes "length high = n" "length low = n" "length close = n" "i < n"
  shows "true_range high low close ! i =
     nanmax [fsub (high ! i) (low ! i),
             fabs (fsub (high ! i) (shift 1 close ! i)),
             fabs (fsub (low ! i) (shift 1 close ! i))]"
  using assms by (simp add: true_range_def Let_def length_shift)

lemma nanmax3_num: "nanmax [Num a, Num b, Num c] = Num (max a (max b c))"
  by (simp add: nanmax_def max_def)

lemma nanmax3_first: "nanmax [Num a, NaN, NaN] = Num a"
  by (simp add: nanmax_def)

lemma fsum_foldl_num: "foldl fadd (Num a) (map Num vs) = Num (a + sum_list vs)"
  by (induction vs arbitrary: a) (simp_all add: add.assoc)

lemma fsum_num: "fsum (map Num vs) = Num (sum_list vs)"
  by (simp add: fsum_def fsum_foldl_num)

lemma window_map: "window w (map f xs) i = map f (window w xs i)"
  by (simp add: window_def take_map drop_map)

lemma rolling_mean_num:
  assumes "i < length vs" "w \<le> Suc i" "0 < w"
  shows "rolling_mean w (map Num vs) ! i = Num (sum_list (window w vs i) / real w)"
  using assms by (simp add: rolling_mean_nth prep_values_num window_map fsum_num)

lemma rolling_mean_early:
  assumes "i < length xs" "Suc i < w"
  shows "rolling_mean w xs ! i = NaN"
  using assms by (simp add: rolling_mean_nth)

text \<open>
  C8. For high, low and close columns of numbers of the same length, the true range
  is a column of numbers: on the first row, where the shifted close is NaN, the
  row maximum skips the two NaN differences and is \<open>high - low\<close>; on every later
  row it is \<open>max (high - low) |high - prevClose| |low - prevClose|\<close>. The ATR is the
  rolling mean of window 14 of that column: NaN on rows 0 to 12 and the mean of the
  last 14 true ranges on every row from 13 on.
\<close>

theorem calcular_atr_true_range_mean:
  assumes "length h = n" and "length l = n" and "length c = n"
  shows "\<exists>tr. true_range (map Num h) (map Num l) (map Num c) = map Num tr \<and> length tr = n \<and>
     calcular_atr (map Num h) (map Num l) (map Num c) 14 = rolling_mean 14 (map Num tr) \<and>
     (0 < n \<longrightarrow> tr ! 0 = h ! 0 - l ! 0) \<and>
     (\<forall>i. 1 \<le> i \<and> i < n \<longrightarrow>
        tr ! i = max (h ! i - l ! i) (max \<bar>h ! i - c ! (i - 1)\<bar> \<bar>l ! i - c ! (i - 1)\<bar>)) \<and>
     (\<forall>i. i < n \<and> i < 13 \<longrightarrow> calcular_atr (map Num h) (map Num l) (map Num c) 14 ! i = NaN) \<and>
     (\<forall>i. 13 \<le> i \<and> i < n \<longrightarrow>
        calcular_atr (map Num h) (map Num l) (map Num c) 14 ! i
          = Num (sum_list (take 14 (drop (i - 13) tr)) / 14))"
proof -
  let ?H = "map Num h" and ?L = "map Num l" and ?C = "map Num c"
  let ?f = "\<lambda>i. if i = 0 then h ! i - l ! i
                 else max (h ! i - l ! i) (max \<bar>h ! i - c ! (i - 1)\<bar> \<bar>l ! i - c ! (i - 1)\<bar>)"
  let ?tr = "map ?f [0..<n]"
  have len: "length ?H = n" "length ?L = n" "length ?C = n" using assms by simp_all
  have cell: "true_range ?H ?L ?C ! i = Num (?f i)" if "i < n" for i
  proof -
    have hl: "?H ! i = Num (h ! i)" "?L ! i = Num (l ! i)" using that assms by simp_all
    have "i < length ?C" using that assms by simp
    from shift1_nth[OF this]
    have sh: "shift 1 ?C ! i = (if i = 0 then NaN else Num (c ! (i - 1)))"
      using that assms by (cases i) simp_all
    show ?thesis
      unfolding true_range_nth[OF len that] hl sh
      by (simp add: fsub_def nanmax3_first nanmax3_num)
  qed
  have 1: "true_range ?H ?L ?C = map Num ?tr"
    by (rule nth_equalityI) (simp_all add: length_true_range[OF len] cell)
  have 2: "length ?tr = n" by simp
  have 3: "calcular_atr ?H ?L ?C 14 = rolling_mean 14 (map Num ?tr)"
    by (simp only: calcular_atr_true_range 1)
  have 4: "0 < n \<longrightarrow> ?tr ! 0 = h ! 0 - l ! 0" by simp
  have 5: "\<forall>i. 1 \<le> i \<and> i < n \<longrightarrow>
        ?tr ! i = max (h ! i - l ! i) (max \<bar>h ! i - c ! (i - 1)\<bar> \<bar>l ! i - c ! (i - 1)\<bar>)"
    by simp
  have 6: "\<forall>i. i < n \<and> i < 13 \<longrightarrow> calcular_atr ?H ?L ?C 14 ! i = NaN"
    unfolding 3 using 2 by (simp add: rolling_mean_early)
  have 7: "\<forall>i. 13 \<le> i \<and> i < n \<longrightarrow>
        calcular_atr ?H ?L ?C 14 ! i = Num (sum_list (take 14 (drop (i - 13) ?tr)) / 14)"
  proof (intro allI impI)
    fix i assume i: "13 \<le> i \<and> i < n"
    then have "i < length ?tr" "14 \<le> Suc i" by simp_all
    from rolling_mean_num[OF this] have
      "rolling_mean 14 (map Num ?tr) ! i = Num (sum_list (window 14 ?tr i) / 14)" by simp
    moreover from i have "Suc i - 14 = i - 13" by simp
    ultimately show "calcular_atr ?H ?L ?C 14 ! i = Num (sum_list (take 14 (drop (i - 13) ?tr)) / 14)"
      unfolding 3 window_def by simp
  qed
  from 1 2 3 4 5 6 7 show ?thesis by blast
qed

theorem calcular_atr_true_range_mean_witness:
  "length [3, 4, 5, 6, 7, 8, 9, 10, 11, 12, 13, 14, 15, 16 :: real] = 14 \<and>
   length [1, 2, 3, 4, 5, 6, 7, 8, 9, 10, 11, 12, 13, 14 :: real] = 14 \<and>
   length [2, 3, 4, 5, 6, 7, 8, 9, 10, 11, 12, 13, 14, 15 :: real] = 14 \<and>
   calcular_atr (map Num [3, 4, 5, 6, 7, 8, 9, 10, 11, 12, 13, 14, 15, 16])
     (map Num [1, 2, 3, 4, 5, 6, 7, 8, 9, 10, 11, 12, 13, 14])
     (map Num [2, 3, 4, 5, 6, 7, 8, 9, 10, 11, 12, 13, 14, 15]) 14 ! 13 = Num 2"
proof -
  let ?h = "[3, 4, 5, 6, 7, 8, 9, 10, 11, 12, 13, 14, 15, 16 :: real]"
  let ?l = "[1, 2, 3, 4, 5, 6, 7, 8, 9, 10, 11, 12, 13, 14 :: real]"
  let ?c = "[2, 3, 4, 5, 6, 7, 8, 9, 10, 11, 12, 13, 14, 15 :: real]"
  have len: "length ?h = 14" "length ?l = 14" "length ?c = 14" by simp_all
  from calcular_atr_true_range_mean[OF len] obtain tr where
    tr: "true_range (map Num ?h) (map Num ?l) (map Num ?c) = map Num tr"
    and atr: "\<forall>i. 13 \<le> i \<and> i < 14 \<longrightarrow>
        calcular_atr (map Num ?h) (map Num ?l) (map Num ?c) 14 ! i
          = Num (sum_list (take 14 (drop (i - 13) tr)) / 14)"
    by blast
  have "true_range (map Num ?h) (map Num ?l) (map Num ?c) = map Num (replicate 14 2)"
    by code_simp
  from tr[symmetric] this have "map Num tr = map Num (replicate 14 2)" by (rule trans)
  then have "tr = replicate 14 2" by (rule map_injective) (simp add: inj_def)
  with atr[rule_format, of 13] have
    "calcular_atr (map Num ?h) (map Num ?l) (map Num ?c) 14 ! 13 = Num 2"
    by (simp add: numeral_eq_Suc)
  with len show ?thesis by blast
qed

section \<open>SignalAggregator\<close>

lemma senales_tec_eq:
  "senales_tec row =
     (if notna (SMA_20 row) \<and> notna (EMA_20 row)
      then [(''SMA_vs_EMA'', if fgt (SMA_20 row) (EMA_20 row) then ''COMPRAR'' else ''VENDER'')]
      else []) @
     (if notna (MACD row) \<and> notna (MACD_Signal row)
      then [(''MACD'', if fgt (MACD row) (MACD_Signal row) then ''COMPRAR'' else ''VENDER'')]
      else []) @
     (if notna (RSI_14 row)
      then [(''RSI'', if flt (RSI_14 row) (Num 30) then ''COMPRAR''
                      else if fgt (RSI_14 row) (Num 70) then ''VENDER'' else ''MANTENER'')]
      else []) @
     (case Estado_Fibonacci row of None \<Rightarrow> []
      | Some e \<Rightarrow> [(''Estado_Fibonacci'', if e = ''SOPORTE'' then ''COMPRAR''
                       else if e = ''RESISTENCIA'' then ''VENDER'' else ''MANTENER'')])"
proof -
  define c1 where "c1 = (notna (SMA_20 row) \<and> notna (EMA_20 row))"
  define c2 where "c2 = (notna (MACD row) \<and> notna (MACD_Signal row))"
  show ?thesis
    unfolding senales_tec_def Let_def c1_def[symmetric] c2_def[symmetric]
    by (cases c1; cases c2; cases "notna (RSI_14 row)"; cases "Estado_Fibonacci row")
       (simp_all split del: if_split)
qed

lemma senales_fund_eq:
  "senales_fund row =
     (if notna (PER row)
      then [(''PER'', if flt (PER row) (Num 20) then ''COMPRAR''
                      else if fgt (PER row) (Num 30) then ''VENDER'' else ''MANTENER'')]
      else []) @
     (if notna (ROE row)
      then [(''ROE'', if fgt (ROE row) (Num 0.15) then ''COMPRAR''
                      else if flt (ROE row) (Num 0.05) then ''VENDER'' else ''MANTENER'')]
      else []) @
     (if notna (EPS_Growth_YoY row)
      then [(''EPS Growth YoY'', if fgt (EPS_Growth_YoY row) (Num 0.10) then ''COMPRAR''
                      else if flt (EPS_Growth_YoY row) (Num 0) then ''VENDER'' else ''MANTENER'')]
      else []) @
     (if notna (Deuda_Patrimonio row)
      then [(''Deuda/Patrimonio'', if flt (Deuda_Patrimonio row) (Num 100) then ''COMPRAR''
                      else if fgt (Deuda_Patrimonio row) (Num 200) then ''VENDER'' else ''MANTENER'')]
      else [])"
proof (cases "notna (PER row)"; cases "notna (ROE row)";
       cases "notna (EPS_Growth_YoY row)"; cases "notna (Deuda_Patrimonio row)")
qed (simp_all add: senales_fund_def Let_def split del: if_split)


lemma notna_iff: "notna x \<longleftrightarrow> x \<noteq> NaN"
  by (cases x) simp_all

lemma count_opt:
  "count_list (map snd (if c then [(k, v)] else [])) x = of_bool (c \<and> v = x)"
  by simp

lemma length_opt: "length (if c then [p] else []) = of_bool c"
  by simp

lemma val2:
  "((if a then ''COMPRAR'' else ''VENDER'') = ''COMPRAR'') = a"
  "((if a then ''COMPRAR'' else ''VENDER'') = ''VENDER'') = (\<not> a)"
  by simp_all

lemma val3:
  "((if a then ''COMPRAR'' else if b then ''VENDER'' else ''MANTENER'') = ''COMPRAR'') = a"
  "((if a then ''COMPRAR'' else if b then ''VENDER'' else ''MANTENER'') = ''VENDER'')
     = (\<not> a \<and> b)"
  by simp_all

lemma estado_opt:
  "length (case eo of None \<Rightarrow> [] | Some e \<Rightarrow> [(k, f e)]) = of_bool (eo \<noteq> None)"
  "count_list (map snd (case eo of None \<Rightarrow> []
     | Some e \<Rightarrow> [(k, if e = ''SOPORTE'' then ''COMPRAR''
                      else if e = ''RESISTENCIA'' then ''VENDER'' else ''MANTENER'')]))
     ''COMPRAR'' = of_bool (eo = Some ''SOPORTE'')"
  "count_list (map snd (case eo of None \<Rightarrow> []
     | Some e \<Rightarrow> [(k, if e = ''SOPORTE'' then ''COMPRAR''
                      else if e = ''RESISTENCIA'' then ''VENDER'' else ''MANTENER'')]))
     ''VENDER'' = of_bool (eo = Some ''RESISTENCIA'')"
  by (cases eo; simp)+

lemma length_senales_tec:
  "length (senales_tec row) =
     of_bool (notna (SMA_20 row) \<and> notna (EMA_20 row)) +
     of_bool (notna (MACD row) \<and> notna (MACD_Signal row)) +
     of_bool (notna (RSI_14 row)) + of_bool (Estado_Fibonacci row \<noteq> None)"
  by (simp only: senales_tec_eq length_append length_opt estado_opt add.assoc)

lemma length_senales_fund:
  "length (senales_fund row) =
     of_bool (notna (PER row)) + of_bool (notna (ROE row)) +
     of_bool (notna (EPS_Growth_YoY row)) + of_bool (notna (Deuda_Patrimonio row))"
  by (simp only: senales_fund_eq length_append length_opt add.assoc)

lemma compras_tec:
  "count_list (map snd (senales_tec row)) ''COMPRAR'' =
     of_bool (notna (SMA_20 row) \<and> notna (EMA_20 row) \<and> fgt (SMA_20 row) (EMA_20 row)) +
     of_bool (notna (MACD row) \<and> notna (MACD_Signal row) \<and> fgt (MACD row) (MACD_Signal row)) +
     of_bool (notna (RSI_14 row) \<and> flt (RSI_14 row) (Num 30)) +
     of_bool (Estado_Fibonacci row = Some ''SOPORTE'')"
  by (simp only: senales_tec_eq map_append count_list_append count_opt estado_opt val2 val3
        add.assoc conj_assoc)




lemma map_of_opt:
  "k' \<noteq> k \<Longrightarrow> map_of ((if c then [(k', v)] else []) @ rest) k = map_of rest k"
  "(map_of ((if c then [(k, v)] else []) @ rest) k = None) = (\<not> c \<and> map_of rest k = None)"
  by simp_all


lemma map_of_opt_last:
  "k' \<noteq> k \<Longrightarrow> map_of (if c then [(k', v)] else []) k = None"
  "(map_of (if c then [(k, v)] else []) k = None) = (\<not> c)"
  by simp_all

lemma map_of_estado:
  "k' \<noteq> k \<Longrightarrow> map_of (case eo of None \<Rightarrow> [] | Some e \<Rightarrow> [(k', f e)]) k = None"
  "(map_of (case eo of None \<Rightarrow> [] | Some e \<Rightarrow> [(k, f e)]) k = None) = (eo = None)"
  by (cases eo; simp)+

lemma map_of_senales_tec:
  "(map_of (senales_tec row) ''SMA_vs_EMA'' = None) = (SMA_20 row = NaN \<or> EMA_20 row = NaN)"
  "(map_of (senales_tec row) ''MACD'' = None) = (MACD row = NaN \<or> MACD_Signal row = NaN)"
  "(map_of (senales_tec row) ''RSI'' = None) = (RSI_14 row = NaN)"
  "(map_of (senales_tec row) ''Estado_Fibonacci'' = None) = (Estado_Fibonacci row = None)"
  unfolding senales_tec_eq
  by (simp_all add: map_of_opt map_of_estado notna_iff del: map_of_append split del: if_split)

lemma map_of_senales_fund:
  "(map_of (senales_fund row) ''PER'' = None) = (PER row = NaN)"
  "(map_of (senales_fund row) ''ROE'' = None) = (ROE row = NaN)"
  "(map_of (senales_fund row) ''EPS Growth YoY'' = None) = (EPS_Growth_YoY row = NaN)"
  "(map_of (senales_fund row) ''Deuda/Patrimonio'' = None) = (Deuda_Patrimonio row = NaN)"
  unfolding senales_fund_eq
  by (simp_all add: map_of_opt map_of_opt_last notna_iff del: map_of_append split del: if_split)


lemma pct_buy_eq:
  "pct_buy senales =
     (if length senales = 0 then NaN
      else Num (round_dec 2
             (real (count_list (map snd senales) ''COMPRAR'') / real (length senales) * 100)))"
  by (simp add: pct_buy_def)

text \<open>
  C4. For every joined record, each of the eight signals is absent from its dict
  exactly when one of the fields it reads is NaN (for the Fibonacci signal: when the
  text cell is missing); the number of technical and of fundamental signals present
  counts only the fields that are there, so a missing signal is not a MANTENER vote.
  \<open>%_Tecnico_Buy\<close> is the number of COMPRAR among the technical signals present,
  divided by the number of technical signals present, times 100, rounded to two
  decimals, and NaN when none is present; likewise \<open>%_Fundamental_Buy\<close>.
\<close>

theorem senales_gating:
  "let tec = senales_tec row; fund = senales_fund row; res = resumen_fila row in
   ((map_of tec ''SMA_vs_EMA'' = None) = (SMA_20 row = NaN \<or> EMA_20 row = NaN)) \<and>
   ((map_of tec ''MACD'' = None) = (MACD row = NaN \<or> MACD_Signal row = NaN)) \<and>
   ((map_of tec ''RSI'' = None) = (RSI_14 row = NaN)) \<and>
   ((map_of tec ''Estado_Fibonacci'' = None) = (Estado_Fibonacci row = None)) \<and>
   ((map_of fund ''PER'' = None) = (PER row = NaN)) \<and>
   ((map_of fund ''ROE'' = None) = (ROE row = NaN)) \<and>
   ((map_of fund ''EPS Growth YoY'' = None) = (EPS_Growth_YoY row = NaN)) \<and>
   ((map_of fund ''Deuda/Patrimonio'' = None) = (Deuda_Patrimonio row = NaN)) \<and>
   length tec =
     of_bool (notna (SMA_20 row) \<and> notna (EMA_20 row)) +
     of_bool (notna (MACD row) \<and> notna (MACD_Signal row)) +
     of_bool (notna (RSI_14 row)) + of_bool (Estado_Fibonacci row \<noteq> None) \<and>
   length fund =
     of_bool (notna (PER row)) + of_bool (notna (ROE row)) +
     of_bool (notna (EPS_Growth_YoY row)) + of_bool (notna (Deuda_Patrimonio row)) \<and>
   pct_Tecnico_Buy res =
     (if length tec = 0 then NaN
      else Num (round_dec 2
             (real (count_list (map snd tec) ''COMPRAR'') / real (length tec) * 100))) \<and>
   pct_Fundamental_Buy res =
     (if length fund = 0 then NaN
      else Num (round_dec 2
             (real (count_list (map snd fund) ''COMPRAR'') / real (length fund) * 100)))"
proof -
  have 1: "pct_Tecnico_Buy (resumen_fila row) = pct_buy (senales_tec row)"
    and 2: "pct_Fundamental_Buy (resumen_fila row) = pct_buy (senales_fund row)"
    by (simp_all add: resumen_fila_def Let_def)
  show ?thesis
    unfolding Let_def 1 2
    by (intro conjI map_of_senales_tec map_of_senales_fund length_senales_tec
          length_senales_fund pct_buy_eq)
qed

theorem senales_gating_witness:
  "map_of (senales_tec fila_incompleta) ''SMA_vs_EMA'' = None \<and>
   map_of (senales_tec fila_incompleta) ''Estado_Fibonacci'' = None \<and>
   length (senales_tec fila_incompleta) = 2 \<and>
   length (senales_fund fila_incompleta) = 0 \<and>
   pct_Tecnico_Buy (resumen_fila fila_incompleta) = Num 50 \<and>
   pct_Fundamental_Buy (resumen_fila fila_incompleta) = NaN"
proof -
  have f: "SMA_20 fila_incompleta = NaN" "EMA_20 fila_incompleta = Num 49"
    "MACD fila_incompleta = Num 1" "MACD_Signal fila_incompleta = Num 0.5"
    "RSI_14 fila_incompleta = Num 50" "Estado_Fibonacci fila_incompleta = None"
    "PER fila_incompleta = NaN" "ROE fila_incompleta = NaN"
    "EPS_Growth_YoY fila_incompleta = NaN" "Deuda_Patrimonio fila_incompleta = NaN"
    by (simp_all add: fila_incompleta_def)
  have c: "count_list (map snd (senales_tec fila_incompleta)) ''COMPRAR'' = 1"
    by (simp add: compras_tec f fgt_def)
  have r: "round_dec 2 50 = 50"
    by (simp add: round_dec_def round_half_even_def)
  note g = senales_gating[of fila_incompleta, unfolded Let_def]
  have 1: "map_of (senales_tec fila_incompleta) ''SMA_vs_EMA'' = None"
    and 2: "map_of (senales_tec fila_incompleta) ''Estado_Fibonacci'' = None"
    and 3: "length (senales_tec fila_incompleta) = 2"
    and 4: "length (senales_fund fila_incompleta) = 0"
    using g by (simp_all add: f)
  have 5: "pct_Tecnico_Buy (resumen_fila fila_incompleta) = Num 50"
    using g unfolding c 3 by (simp add: r)
  have 6: "pct_Fundamental_Buy (resumen_fila fila_incompleta) = NaN"
    using g unfolding 4 by simp
  from 1 2 3 4 5 6 show ?thesis by blast
qed





section \<open>IndicatorEngine: the frames of the groups\<close>

lemma length_filas_grupo: "length (filas_grupo grp) = length grp"
  by (simp add: filas_grupo_def Let_def)

lemma key_filas_grupo:
  "map (\<lambda>r. (Date r, Ticker r, Close r)) (filas_grupo grp)
     = map (\<lambda>r. (Date r, Ticker r, Close r)) grp"
  by (rule nth_equalityI) (simp_all add: filas_grupo_def Let_def)

lemma Ticker_filas_grupo: "map Ticker (filas_grupo grp) = map Ticker grp"
  by (rule nth_equalityI) (simp_all add: filas_grupo_def Let_def)

lemma collect_Inr: "collect (map Inr vs) = Inr vs"
  by (induction vs) simp_all

lemma set_group_keys: "set (group_keys df) = Ticker ` set df"
  by (simp add: group_keys_def)

lemma distinct_group_keys: "distinct (group_keys df)"
  by (simp add: group_keys_def)

lemma sorted_group_keys: "sorted (group_keys df)"
  by (simp add: group_keys_def)

lemma get_group_nonempty: "k \<in> set (group_keys df) \<Longrightarrow> get_group df k \<noteq> []"
  by (auto simp: set_group_keys get_group_def filter_empty_conv)

lemma indicadores_all_Inr:
  "map (\<lambda>k. indicadores_grupo (get_group df k)) (group_keys df)
     = map Inr (map (\<lambda>k. filas_grupo (get_group df k)) (group_keys df))"
  by (simp add: indicadores_grupo_def get_group_nonempty)

lemma sort_key_Nil_iff: "sort_key f xs = [] \<longleftrightarrow> xs = []"
proof
  assume "sort_key f xs = []"
  then have "length (sort_key f xs) = 0" by simp
  then show "xs = []" by (simp only: length_sort length_0_conv)
qed simp

lemma calcular_indicadores_tecnicos_eq:
  "calcular_indicadores_tecnicos input =
     (if input = [] then Inl ValueError else Inr (concat (frames input)))"
proof -
  have "group_keys (sort_values input) = [] \<longleftrightarrow> input = []"
    by (simp add: group_keys_def sort_values_def sort_key_Nil_iff)
  then have e: "frames input = [] \<longleftrightarrow> input = []" by (simp add: frames_def)
  have c: "collect (map (\<lambda>k. indicadores_grupo (get_group (sort_values input) k))
                     (group_keys (sort_values input))) = Inr (frames input)"
    unfolding indicadores_all_Inr frames_def by (rule collect_Inr)
  have "calcular_indicadores_tecnicos input = pd_concat (frames input)"
    by (simp only: calcular_indicadores_tecnicos_def Let_def c sum.case)
  then show ?thesis by (simp add: pd_concat_def e)
qed

lemma concat_select:
  "distinct ks \<Longrightarrow> concat (map (\<lambda>k. if k = t then F k else []) ks) = (if t \<in> set ks then F t else [])"
  by (induction ks) auto

lemma get_group_concat:
  assumes "distinct ks" and "\<And>k. k \<in> set ks \<Longrightarrow> \<forall>r \<in> set (F k). Ticker r = k"
  shows "get_group (concat (map F ks)) t = (if t \<in> set ks then F t else [])"
proof -
  have f: "filter (\<lambda>r. Ticker r = t) (F k) = (if k = t then F k else [])"
    if "k \<in> set ks" for k
    using assms(2)[OF that] by (auto simp: filter_empty_conv filter_id_conv)
  have m: "map (\<lambda>k. filter (\<lambda>r. Ticker r = t) (F k)) ks
             = map (\<lambda>k. if k = t then F k else []) ks"
    by (rule map_cong[OF refl]) (rule f)
  have "get_group (concat (map F ks)) t
          = concat (map (\<lambda>k. filter (\<lambda>r. Ticker r = t) (F k)) ks)"
    by (simp add: get_group_def filter_concat comp_def)
  also have "\<dots> = concat (map (\<lambda>k. if k = t then F k else []) ks)"
    by (simp only: m)
  also have "\<dots> = (if t \<in> set ks then F t else [])"
    by (rule concat_select[OF assms(1)])
  finally show ?thesis .
qed

lemma get_group_out:
  "get_group (concat (frames input)) t = filas_grupo (get_group (sort_values input) t)"
proof -
  let ?df = "sort_values input"
  let ?F = "\<lambda>k. filas_grupo (get_group ?df k)"
  have tk: "\<forall>r \<in> set (?F k). Ticker r = k" for k
  proof -
    have "set (map Ticker (?F k)) \<subseteq> {k}"
      unfolding Ticker_filas_grupo by (auto simp: get_group_def)
    then show ?thesis by auto
  qed
  have "get_group (concat (map ?F (group_keys ?df))) t = (if t \<in> set (group_keys ?df) then ?F t else [])"
    by (rule get_group_concat[OF distinct_group_keys]) (rule tk)
  moreover have "?F t = []" if "t \<notin> set (group_keys ?df)"
  proof -
    from that have "get_group ?df t = []"
      by (auto simp: set_group_keys get_group_def filter_empty_conv)
    then show ?thesis using length_filas_grupo[of "get_group ?df t"] by simp
  qed
  ultimately show ?thesis by (auto simp: frames_def)
qed


lemma sorted_Ticker_sort_values: "sorted (map Ticker (sort_values df))"
proof -
  have "sorted (map (\<lambda>r. (Ticker r, Date r)) (sort_values df))"
    unfolding sort_values_def by (rule sorted_sort_key)
  then have "sorted_wrt (\<lambda>x y. (Ticker x, Date x) \<le> (Ticker y, Date y)) (sort_values df)"
    by (simp add: sorted_map)
  then have "sorted_wrt (\<lambda>x y. Ticker x \<le> Ticker y) (sort_values df)"
    by (rule sorted_wrt_mono_rel[rotated]) (auto simp: less_eq_prod_def)
  then show ?thesis by (simp add: sorted_map)
qed

lemma get_group_sort_values:
  "get_group (sort_values df) t = sort_key (\<lambda>r. (Ticker r, Date r)) (get_group df t)"
  by (simp add: get_group_def sort_values_def filter_sort)

lemma length_get_group_sort_values:
  "length (get_group (sort_values df) t) = length (get_group df t)"
  by (simp add: get_group_sort_values)

lemma set_get_group_sort_values:
  "set (get_group (sort_values df) t) = set (get_group df t)"
  by (simp add: get_group_sort_values)

lemma sorted_concat_keys:
  assumes "sorted ks" and "\<And>k. k \<in> set ks \<Longrightarrow> \<forall>r \<in> set (F k). f r = k"
  shows "sorted (map f (concat (map F ks)))"
  using assms
proof (induction ks)
  case Nil
  then show ?case by simp
next
  case (Cons k ks)
  have 1: "sorted (map f (F k))"
  proof -
    have "map f (F k) = replicate (length (F k)) k"
      using Cons.prems(2)[of k] by (simp add: map_replicate_const[symmetric] cong: map_cong)
    then show ?thesis by (simp add: sorted_replicate)
  qed
  have 2: "sorted (map f (concat (map F ks)))"
    using Cons.prems by (intro Cons.IH) auto
  have 3: "f x \<le> f y" if "x \<in> set (F k)" "y \<in> set (concat (map F ks))" for x y
  proof -
    from that(2) obtain k' where k': "k' \<in> set ks" "y \<in> set (F k')" by auto
    from Cons.prems(2)[of k] that(1) have "f x = k" by simp
    moreover from Cons.prems(2)[of k'] k' have "f y = k'" by simp
    moreover from Cons.prems(1) k'(1) have "k \<le> k'" by simp
    ultimately show ?thesis by simp
  qed
  have "\<forall>x \<in> set (map f (F k)). \<forall>y \<in> set (map f (concat (map F ks))). x \<le> y"
    using 3 by (simp only: set_map) blast
  with 1 2 show ?case by (simp only: list.map concat.simps map_append sorted_append)
qed

lemma mset_concat_groups:
  "distinct ks \<Longrightarrow>
   mset (concat (map (get_group df) ks)) = mset (filter (\<lambda>r. Ticker r \<in> set ks) df)"
proof (induction ks)
  case Nil
  then show ?case by simp
next
  case (Cons k ks)
  have "mset (filter (\<lambda>r. Ticker r = k) df) + mset (filter (\<lambda>r. Ticker r \<in> set ks) df)
        = mset (filter (\<lambda>r. Ticker r = k \<or> Ticker r \<in> set ks) df)"
    using Cons.prems by (induction df) auto
  with Cons show ?case by (simp add: get_group_def)
qed

lemma concat_groups:
  assumes "sorted (map Ticker df)"
  shows "concat (map (get_group df) (group_keys df)) = df"
proof -
  let ?G = "concat (map (get_group df) (group_keys df))"
  have tk: "\<forall>r \<in> set (get_group df k). Ticker r = k" for k
    by (simp add: get_group_def)
  have 1: "mset ?G = mset df"
    by (simp add: mset_concat_groups[OF distinct_group_keys] set_group_keys)
  have g: "get_group ?G t = get_group df t" for t
  proof -
    have "get_group ?G t = (if t \<in> set (group_keys df) then get_group df t else [])"
      by (rule get_group_concat[OF distinct_group_keys]) (rule tk)
    moreover have "get_group df t = []" if "t \<notin> set (group_keys df)"
      using that by (auto simp: set_group_keys get_group_def filter_empty_conv)
    ultimately show ?thesis by auto
  qed
  have 2: "filter (\<lambda>x. Ticker k = Ticker x) ?G = filter (\<lambda>x. Ticker k = Ticker x) df" for k
    using g[of "Ticker k"] by (simp add: get_group_def eq_commute)
  have 3: "sorted (map Ticker ?G)"
    by (rule sorted_concat_keys[OF sorted_group_keys]) (rule tk)
  have "sort_key Ticker df = ?G"
    by (rule properties_for_sort_key[OF 1 2 3])
  with sort_key_id_if_sorted[OF assms] show ?thesis by simp
qed

lemma key_out:
  "map (\<lambda>r. (Date r, Ticker r, Close r)) (concat (frames input))
     = map (\<lambda>r. (Date r, Ticker r, Close r)) (sort_values input)"
proof -
  let ?df = "sort_values input"
  have "map (\<lambda>r. (Date r, Ticker r, Close r)) (concat (frames input))
        = concat (map (\<lambda>k. map (\<lambda>r. (Date r, Ticker r, Close r)) (get_group ?df k)) (group_keys ?df))"
    by (simp add: frames_def map_concat comp_def key_filas_grupo)
  also have "\<dots> = map (\<lambda>r. (Date r, Ticker r, Close r)) (concat (map (get_group ?df) (group_keys ?df)))"
    by (simp add: map_concat comp_def)
  also have "\<dots> = map (\<lambda>r. (Date r, Ticker r, Close r)) ?df"
    by (simp only: concat_groups[OF sorted_Ticker_sort_values])
  finally show ?thesis .
qed

section \<open>IndicatorEngine: one row per input row\<close>

lemma length_rolling_std: "length (rolling_std w xs) = length xs"
  by (simp add: rolling_std_def Let_def length_prep_values)

lemma rolling_std_nth:
  "i < length xs \<Longrightarrow> rolling_std w xs ! i =
     (if Suc i < w \<or> w < 2 then NaN else sample_std (window w (prep_values xs) i))"
  by (simp add: rolling_std_def Let_def length_prep_values)

lemma prep_values_id: "list_all is_num xs \<Longrightarrow> prep_values xs = xs"
  by (induction xs) (simp_all add: prep_values_def)

lemma length_calcular_rsi: "length (calcular_rsi close w) = length close"
  by (simp add: calcular_rsi_def Let_def length_rolling_mean clip_lower0_def clip_upper0_def
      length_series_diff)

lemma campos_filas_grupo:
  assumes "i < length grp"
  shows "SMA_20 (filas_grupo grp ! i) = rolling_mean 20 (map Close grp) ! i"
    and "SMA_50 (filas_grupo grp ! i) = rolling_mean 50 (map Close grp) ! i"
    and "EMA_20 (filas_grupo grp ! i) = ewm_mean 20 (map Close grp) ! i"
    and "RSI_14 (filas_grupo grp ! i) = calcular_rsi (map Close grp) 14 ! i"
    and "ATR_14 (filas_grupo grp ! i)
           = calcular_atr (map High grp) (map Low grp) (map Close grp) 14 ! i"
    and "BB_Middle (filas_grupo grp ! i) = rolling_mean 20 (map Close grp) ! i"
    and "BB_Upper (filas_grupo grp ! i)
           = fadd (rolling_mean 20 (map Close grp) ! i)
               (fmul (Num 2) (rolling_std 20 (map Close grp) ! i))"
    and "BB_Lower (filas_grupo grp ! i)
           = fsub (rolling_mean 20 (map Close grp) ! i)
               (fmul (Num 2) (rolling_std 20 (map Close grp) ! i))"
    and "Volatility_20 (filas_grupo grp ! i) = rolling_std 20 (map Close grp) ! i"
  using assms
  by (simp_all add: filas_grupo_def Let_def length_rolling_mean length_rolling_std)

lemma fibs_filas_grupo:
  assumes "i < length grp"
  shows "(Fib_0_0 (filas_grupo grp ! i), Fib_23_6 (filas_grupo grp ! i),
          Fib_38_2 (filas_grupo grp ! i), Fib_50_0 (filas_grupo grp ! i),
          Fib_61_8 (filas_grupo grp ! i), Fib_100 (filas_grupo grp ! i))
         = fib_columns (map Close grp)"
    and "Nivel_Fib_Cercano (filas_grupo grp ! i)
         = Some (nivel_cercano (Close (last grp)) (fib_columns_f64 (map Close grp)))"
    and "Estado_Fibonacci (filas_grupo grp ! i)
         = Some (estado_fib (nivel_cercano (Close (last grp)) (fib_columns_f64 (map Close grp))))"
  using assms by (simp_all add: filas_grupo_def Let_def)

lemma rsi_cell_NaN: "rsi_cell NaN l = NaN"
  by (simp add: rsi_cell_def fsub_def)

lemma warm_up:
  assumes "i < length grp" and "i < 13"
  shows "SMA_20 (filas_grupo grp ! i) = NaN \<and> SMA_50 (filas_grupo grp ! i) = NaN \<and>
         RSI_14 (filas_grupo grp ! i) = NaN \<and> ATR_14 (filas_grupo grp ! i) = NaN \<and>
         BB_Middle (filas_grupo grp ! i) = NaN \<and> BB_Upper (filas_grupo grp ! i) = NaN \<and>
         BB_Lower (filas_grupo grp ! i) = NaN \<and> Volatility_20 (filas_grupo grp ! i) = NaN"
proof -
  let ?c = "map Close grp"
  have i: "i < length ?c" using assms by simp
  have m20: "rolling_mean 20 ?c ! i = NaN" and m50: "rolling_mean 50 ?c ! i = NaN"
    using assms i by (simp_all add: rolling_mean_nth)
  have s20: "rolling_std 20 ?c ! i = NaN"
    using assms i by (simp add: rolling_std_nth)
  have rsi: "calcular_rsi ?c 14 ! i = NaN"
  proof -
    have "i < length (clip_lower0 (series_diff ?c))"
      using i by (simp add: clip_lower0_def length_series_diff)
    then have "rolling_mean 14 (clip_lower0 (series_diff ?c)) ! i = NaN"
      using assms by (simp add: rolling_mean_nth)
    then show ?thesis by (simp add: calcular_rsi_nth[OF i] rsi_cell_NaN)
  qed
  have atr: "calcular_atr (map High grp) (map Low grp) ?c 14 ! i = NaN"
  proof -
    have "length (true_range (map High grp) (map Low grp) ?c) = length grp"
      by (rule length_true_range) simp_all
    then show ?thesis
      using assms by (simp add: calcular_atr_true_range rolling_mean_nth)
  qed
  show ?thesis
    unfolding campos_filas_grupo[OF assms(1)] m20 m50 s20 rsi atr
    by (simp add: fsub_def)
qed


lemma length_concat_frames: "length (concat (frames input)) = length input"
proof -
  have "length (map (\<lambda>r. (Date r, Ticker r, Close r)) (concat (frames input)))
        = length (map (\<lambda>r. (Date r, Ticker r, Close r)) (sort_values input))"
    by (simp only: key_out)
  then show ?thesis by (simp add: sort_values_def)
qed

text \<open>
  C1 (as amended). For every non-empty price table the IndicatorEngine returns a
  table: its rows carry, in order, the (date, ticker, close) of the input rows
  sorted by ticker and date, so there is exactly one output row per input row, the
  tables have the same length and every ticker has as many output rows as input
  rows; a ticker with fewer than 2 price points still has its rows, with the
  windowed fields (SMA_20, SMA_50, RSI_14, ATR_14, the Bollinger bands and
  Volatility_20) NaN. The empty table is not accepted: it has no group to
  concatenate.
\<close>

theorem one_row_per_input_row:
  assumes "input \<noteq> []"
  shows "\<exists>out. calcular_indicadores_tecnicos input = Inr out \<and>
     map (\<lambda>r. (Date r, Ticker r, Close r)) out
       = map (\<lambda>r. (Date r, Ticker r, Close r)) (sort_values input) \<and>
     length out = length input \<and>
     (\<forall>t. length (get_group out t) = length (get_group input t)) \<and>
     (\<forall>t. length (get_group input t) < 2 \<longrightarrow>
        (\<forall>r \<in> set (get_group out t).
           SMA_20 r = NaN \<and> SMA_50 r = NaN \<and> RSI_14 r = NaN \<and> ATR_14 r = NaN \<and>
           BB_Middle r = NaN \<and> BB_Upper r = NaN \<and> BB_Lower r = NaN \<and>
           Volatility_20 r = NaN))"
proof -
  let ?out = "concat (frames input)"
  have 1: "calcular_indicadores_tecnicos input = Inr ?out"
    using assms by (simp add: calcular_indicadores_tecnicos_eq)
  have 4: "length (get_group ?out t) = length (get_group input t)" for t
    by (simp add: get_group_out length_filas_grupo length_get_group_sort_values)
  have 5: "SMA_20 r = NaN \<and> SMA_50 r = NaN \<and> RSI_14 r = NaN \<and> ATR_14 r = NaN \<and>
           BB_Middle r = NaN \<and> BB_Upper r = NaN \<and> BB_Lower r = NaN \<and>
           Volatility_20 r = NaN"
    if t: "length (get_group input t) < 2" and r: "r \<in> set (get_group ?out t)" for t r
  proof -
    let ?g = "get_group (sort_values input) t"
    from r obtain i where i: "i < length ?g" "r = filas_grupo ?g ! i"
      unfolding get_group_out by (auto simp: in_set_conv_nth length_filas_grupo)
    from i(1) t have "i < 13" by (simp add: length_get_group_sort_values)
    from warm_up[OF i(1) this] show ?thesis by (simp only: i(2))
  qed
  from 1 key_out[of input] length_concat_frames[of input] 4 5 show ?thesis by blast
qed

text \<open>On the empty price table there is no group, the list of frames is empty and
  \<^verbatim>\<open>pd.concat\<close> raises ValueError: the engine does not return an empty table.\<close>

theorem empty_table_raises: "calcular_indicadores_tecnicos [] = Inl ValueError"
  by (simp add: calcular_indicadores_tecnicos_eq)

theorem one_row_per_input_row_witness:
  "tabla_ejemplo \<noteq> [] \<and>
   (\<exists>out. calcular_indicadores_tecnicos tabla_ejemplo = Inr out \<and>
     map (\<lambda>r. (Date r, Ticker r, Close r)) out
       = [(1, ''AAA'', Num 100), (2, ''AAA'', Num 120), (3, ''AAA'', Num 110), (1, ''B'', Num 7)] \<and>
     length out = 4 \<and> length (get_group out ''AAA'') = 3 \<and> length (get_group out ''B'') = 1 \<and>
     SMA_20 (get_group out ''B'' ! 0) = NaN \<and> SMA_50 (get_group out ''B'' ! 0) = NaN \<and>
     RSI_14 (get_group out ''B'' ! 0) = NaN \<and> ATR_14 (get_group out ''B'' ! 0) = NaN \<and>
     BB_Middle (get_group out ''B'' ! 0) = NaN \<and> BB_Upper (get_group out ''B'' ! 0) = NaN \<and>
     BB_Lower (get_group out ''B'' ! 0) = NaN \<and> Volatility_20 (get_group out ''B'' ! 0) = NaN)"
proof -
  have h: "tabla_ejemplo \<noteq> []" by (simp add: tabla_ejemplo_def)
  from one_row_per_input_row[OF h] obtain out where
    o: "calcular_indicadores_tecnicos tabla_ejemplo = Inr out"
    and k: "map (\<lambda>r. (Date r, Ticker r, Close r)) out
       = map (\<lambda>r. (Date r, Ticker r, Close r)) (sort_values tabla_ejemplo)"
    and l: "length out = length tabla_ejemplo"
    and g: "\<forall>t. length (get_group out t) = length (get_group tabla_ejemplo t)"
    and w: "\<forall>t. length (get_group tabla_ejemplo t) < 2 \<longrightarrow>
        (\<forall>r \<in> set (get_group out t).
           SMA_20 r = NaN \<and> SMA_50 r = NaN \<and> RSI_14 r = NaN \<and> ATR_14 r = NaN \<and>
           BB_Middle r = NaN \<and> BB_Upper r = NaN \<and> BB_Lower r = NaN \<and>
           Volatility_20 r = NaN)"
    by blast
  have s: "map (\<lambda>r. (Date r, Ticker r, Close r)) (sort_values tabla_ejemplo)
       = [(1, ''AAA'', Num 100), (2, ''AAA'', Num 120), (3, ''AAA'', Num 110), (1, ''B'', Num 7)]"
    by (simp add: sort_values_def tabla_ejemplo_def precio_def less_eq_prod_def)
  have la: "length (get_group tabla_ejemplo ''AAA'') = 3"
    and lb: "length (get_group tabla_ejemplo ''B'') = 1"
    by (simp_all add: get_group_def tabla_ejemplo_def precio_def)
  note k' = k[unfolded s]
    and ga = g[rule_format, of "''AAA''", unfolded la]
    and gb = g[rule_format, of "''B''", unfolded lb]
  have mem: "get_group out ''B'' ! 0 \<in> set (get_group out ''B'')" using gb by simp
  have lt: "length (get_group tabla_ejemplo ''B'') < 2" using lb by simp
  note wb = w[rule_format, OF lt mem]
  have l4: "length out = 4" using l by (simp add: tabla_ejemplo_def)
  note body = conjI[OF o conjI[OF k' conjI[OF l4 conjI[OF ga conjI[OF gb wb]]]]]
  show ?thesis
    by (rule conjI, rule h, rule exI[where x = out], rule body)
qed

section \<open>Fibonacci levels\<close>

lemma nanmax_Cons: "nanmax (x # xs) = fmax2 x (nanmax xs)"
  by (simp add: nanmax_def)

lemma nanmin_Cons: "nanmin (x # xs) = fmin2 x (nanmin xs)"
  by (simp add: nanmin_def)

lemma fmax2_num: "fmax2 (Num a) (Num b) = Num (max a b)"
  by (simp add: max_def)

lemma fmin2_num: "fmin2 (Num a) (Num b) = Num (min a b)"
  by (simp add: min_def)

lemma nanmax_num: "cs \<noteq> [] \<Longrightarrow> nanmax (map Num cs) = Num (Max (set cs))"
proof (induction cs rule: list_nonempty_induct)
  case (single x)
  then show ?case by (simp add: nanmax_def)
next
  case (cons x xs)
  have "Max (set (x # xs)) = max x (Max (set xs))"
    using cons.hyps by (simp add: Max_insert)
  with cons.IH show ?case by (simp only: list.map nanmax_Cons fmax2_num)
qed

lemma nanmin_num: "cs \<noteq> [] \<Longrightarrow> nanmin (map Num cs) = Num (Min (set cs))"
proof (induction cs rule: list_nonempty_induct)
  case (single x)
  then show ?case by (simp add: nanmin_def)
next
  case (cons x xs)
  have "Min (set (x # xs)) = min x (Min (set xs))"
    using cons.hyps by (simp add: Min_insert)
  with cons.IH show ?case by (simp only: list.map nanmin_Cons fmin2_num)
qed

lemma fib_columns_num:
  assumes "cs \<noteq> []"
  shows "fib_columns (map Num cs) =
    (Num (Max (set cs)),
     Num (Max (set cs) - (Max (set cs) - Min (set cs)) * 0.236),
     Num (Max (set cs) - (Max (set cs) - Min (set cs)) * 0.382),
     Num (Max (set cs) - (Max (set cs) - Min (set cs)) * 0.50),
     Num (Max (set cs) - (Max (set cs) - Min (set cs)) * 0.618),
     Num (Min (set cs)))"
  by (simp add: fib_columns_def Let_def nanmax_num[OF assms] nanmin_num[OF assms] fsub_def)

lemma num_list: "list_all is_num xs \<Longrightarrow> xs = map Num (map the_num xs)"
proof (induction xs)
  case Nil
  then show ?case by simp
next
  case (Cons x xs)
  then show ?case by (cases x) simp_all
qed


lemma out_rows:
  assumes "calcular_indicadores_tecnicos input = Inr out" and "r \<in> set out"
  shows "\<exists>i < length (get_group (sort_values input) (Ticker r)).
           r = filas_grupo (get_group (sort_values input) (Ticker r)) ! i"
proof -
  from assms(1) have out: "out = concat (frames input)"
    by (simp add: calcular_indicadores_tecnicos_eq split: if_splits)
  from assms(2) have "r \<in> set (get_group out (Ticker r))" by (simp add: get_group_def)
  then have "r \<in> set (filas_grupo (get_group (sort_values input) (Ticker r)))"
    by (simp only: out get_group_out)
  then show ?thesis by (auto simp: in_set_conv_nth length_filas_grupo)
qed

lemma group_closes:
  assumes "list_all is_num (map Close (get_group input t))"
  shows "map Close (get_group (sort_values input) t)
           = map Num (map (the_num \<circ> Close) (get_group (sort_values input) t))"
    and "set (map (the_num \<circ> Close) (get_group (sort_values input) t))
           = (the_num \<circ> Close) ` set (get_group input t)"
proof -
  have "list_all is_num (map Close (get_group (sort_values input) t))"
    using assms by (simp add: list_all_iff set_get_group_sort_values)
  from num_list[OF this]
  show "map Close (get_group (sort_values input) t)
           = map Num (map (the_num \<circ> Close) (get_group (sort_values input) t))"
    by (simp add: comp_def)
  show "set (map (the_num \<circ> Close) (get_group (sort_values input) t))
           = (the_num \<circ> Close) ` set (get_group input t)"
    by (simp add: set_get_group_sort_values)
qed

lemma Min_le_Max_list: "cs \<noteq> [] \<Longrightarrow> Min (set cs) \<le> Max (set cs)"
  by (cases cs) (auto intro: order_trans[OF Min_le Max_ge])

lemma fib_order:
  fixes mx mn :: real
  assumes "mn \<le> mx"
  shows "mx \<ge> mx - (mx - mn) * 0.236"
    and "mx - (mx - mn) * 0.236 \<ge> mx - (mx - mn) * 0.382"
    and "mx - (mx - mn) * 0.382 \<ge> mx - (mx - mn) * 0.50"
    and "mx - (mx - mn) * 0.50 \<ge> mx - (mx - mn) * 0.618"
    and "mx - (mx - mn) * 0.618 \<ge> mn"
  using assms by (simp_all add: field_simps)

text \<open>
  C9. On every output row of a ticker whose closes are all numbers, the six
  Fibonacci level cells are numbers with
  \<open>Fib_0.0% \<ge> Fib_23.6% \<ge> Fib_38.2% \<ge> Fib_50.0% \<ge> Fib_61.8% \<ge> Fib_100%\<close>, where
  \<open>Fib_0.0%\<close> is the maximum and \<open>Fib_100%\<close> the minimum of all the closes of that
  ticker, and the four levels between are the maximum minus 0.236, 0.382, 0.50 and
  0.618 times the range.
\<close>

theorem fibonacci_levels_monotone:
  assumes "calcular_indicadores_tecnicos input = Inr out"
    and "r \<in> set out"
    and "list_all is_num (map Close (get_group input (Ticker r)))"
  shows "\<exists>f0 f23 f38 f50 f61 f100.
     Fib_0_0 r = Num f0 \<and> Fib_23_6 r = Num f23 \<and> Fib_38_2 r = Num f38 \<and>
     Fib_50_0 r = Num f50 \<and> Fib_61_8 r = Num f61 \<and> Fib_100 r = Num f100 \<and>
     f0 \<ge> f23 \<and> f23 \<ge> f38 \<and> f38 \<ge> f50 \<and> f50 \<ge> f61 \<and> f61 \<ge> f100 \<and>
     f0 = Max ((the_num \<circ> Close) ` set (get_group input (Ticker r))) \<and>
     f100 = Min ((the_num \<circ> Close) ` set (get_group input (Ticker r))) \<and>
     f23 = f0 - (f0 - f100) * 0.236 \<and> f38 = f0 - (f0 - f100) * 0.382 \<and>
     f50 = f0 - (f0 - f100) * 0.50 \<and> f61 = f0 - (f0 - f100) * 0.618"
proof -
  let ?g = "get_group (sort_values input) (Ticker r)"
  let ?cs = "map (the_num \<circ> Close) ?g"
  from out_rows[OF assms(1,2)] obtain i where i: "i < length ?g" "r = filas_grupo ?g ! i"
    by blast
  then have ne: "?cs \<noteq> []" by auto
  note gc = group_closes[OF assms(3)]
  let ?mx = "Max (set ?cs)" and ?mn = "Min (set ?cs)"
  have f: "(Fib_0_0 r, Fib_23_6 r, Fib_38_2 r, Fib_50_0 r, Fib_61_8 r, Fib_100 r) =
    (Num ?mx, Num (?mx - (?mx - ?mn) * 0.236), Num (?mx - (?mx - ?mn) * 0.382),
     Num (?mx - (?mx - ?mn) * 0.50), Num (?mx - (?mx - ?mn) * 0.618), Num ?mn)"
    using fibs_filas_grupo(1)[OF i(1), folded i(2)] fib_columns_num[OF ne]
    by (simp only: gc(1))
  have le: "?mn \<le> ?mx" by (rule Min_le_Max_list[OF ne])
  have 1: "Fib_0_0 r = Num ?mx" "Fib_23_6 r = Num (?mx - (?mx - ?mn) * 0.236)"
    "Fib_38_2 r = Num (?mx - (?mx - ?mn) * 0.382)" "Fib_50_0 r = Num (?mx - (?mx - ?mn) * 0.50)"
    "Fib_61_8 r = Num (?mx - (?mx - ?mn) * 0.618)" "Fib_100 r = Num ?mn"
    using f by simp_all
  have 2: "?mx \<ge> ?mx - (?mx - ?mn) * 0.236"
    "?mx - (?mx - ?mn) * 0.236 \<ge> ?mx - (?mx - ?mn) * 0.382"
    "?mx - (?mx - ?mn) * 0.382 \<ge> ?mx - (?mx - ?mn) * 0.50"
    "?mx - (?mx - ?mn) * 0.50 \<ge> ?mx - (?mx - ?mn) * 0.618"
    "?mx - (?mx - ?mn) * 0.618 \<ge> ?mn"
    by (rule fib_order[OF le])+
  have 3: "?mx = Max ((the_num \<circ> Close) ` set (get_group input (Ticker r)))"
    "?mn = Min ((the_num \<circ> Close) ` set (get_group input (Ticker r)))"
    by (simp_all only: gc(2))
  from 1 2 3 show ?thesis by blast
qed


lemma tabla_ejemplo_out:
  "calcular_indicadores_tecnicos tabla_ejemplo = Inr (concat (frames tabla_ejemplo))"
  "length (concat (frames tabla_ejemplo)) = 4"
  "Ticker (concat (frames tabla_ejemplo) ! 0) = ''AAA''"
  "Ticker (concat (frames tabla_ejemplo) ! 3) = ''B''"
proof -
  let ?out = "concat (frames tabla_ejemplo)"
  show "calcular_indicadores_tecnicos tabla_ejemplo = Inr ?out"
    by (simp add: calcular_indicadores_tecnicos_eq tabla_ejemplo_def)
  show l: "length ?out = 4"
    by (simp add: length_concat_frames tabla_ejemplo_def)
  have k: "map (\<lambda>r. (Date r, Ticker r, Close r)) ?out
       = [(1, ''AAA'', Num 100), (2, ''AAA'', Num 120), (3, ''AAA'', Num 110), (1, ''B'', Num 7)]"
    unfolding key_out
    by (simp add: sort_values_def tabla_ejemplo_def precio_def less_eq_prod_def)
  have "map (\<lambda>r. (Date r, Ticker r, Close r)) ?out ! 0 = (1, ''AAA'', Num 100)"
    by (simp only: k nth_Cons_0)
  then show "Ticker (?out ! 0) = ''AAA''" using l by simp
  have "map (\<lambda>r. (Date r, Ticker r, Close r)) ?out ! 3 = (1, ''B'', Num 7)"
    by (simp only: k) simp
  then show "Ticker (?out ! 3) = ''B''" using l by simp
qed

lemma tabla_ejemplo_AAA:
  "list_all is_num (map Close (get_group tabla_ejemplo ''AAA''))"
  "Max ((the_num \<circ> Close) ` set (get_group tabla_ejemplo ''AAA'')) = 120"
  "Min ((the_num \<circ> Close) ` set (get_group tabla_ejemplo ''AAA'')) = 100"
  by (simp_all add: get_group_def tabla_ejemplo_def precio_def)

theorem fibonacci_levels_monotone_witness:
  "\<exists>out. calcular_indicadores_tecnicos tabla_ejemplo = Inr out \<and> out ! 0 \<in> set out \<and>
     list_all is_num (map Close (get_group tabla_ejemplo (Ticker (out ! 0)))) \<and>
     Fib_0_0 (out ! 0) = Num 120 \<and> Fib_23_6 (out ! 0) = Num 115.28 \<and>
     Fib_38_2 (out ! 0) = Num 112.36 \<and> Fib_50_0 (out ! 0) = Num 110 \<and>
     Fib_61_8 (out ! 0) = Num 107.64 \<and> Fib_100 (out ! 0) = Num 100"
proof -
  let ?out = "concat (frames tabla_ejemplo)"
  note o = tabla_ejemplo_out(1)
  have m: "?out ! 0 \<in> set ?out"
    by (rule nth_mem) (simp add: tabla_ejemplo_out(2))
  have n: "list_all is_num (map Close (get_group tabla_ejemplo (Ticker (?out ! 0))))"
    by (simp only: tabla_ejemplo_out(3) tabla_ejemplo_AAA(1))
  from fibonacci_levels_monotone[OF o m n] obtain f0 f23 f38 f50 f61 f100 where
    f: "Fib_0_0 (?out ! 0) = Num f0" "Fib_23_6 (?out ! 0) = Num f23"
       "Fib_38_2 (?out ! 0) = Num f38" "Fib_50_0 (?out ! 0) = Num f50"
       "Fib_61_8 (?out ! 0) = Num f61" "Fib_100 (?out ! 0) = Num f100"
    and v: "f0 = Max ((the_num \<circ> Close) ` set (get_group tabla_ejemplo (Ticker (?out ! 0))))"
       "f100 = Min ((the_num \<circ> Close) ` set (get_group tabla_ejemplo (Ticker (?out ! 0))))"
       "f23 = f0 - (f0 - f100) * 0.236" "f38 = f0 - (f0 - f100) * 0.382"
       "f50 = f0 - (f0 - f100) * 0.50" "f61 = f0 - (f0 - f100) * 0.618"
    by blast
  have f0: "f0 = 120" and f100: "f100 = 100"
    using v(1,2) by (simp_all only: tabla_ejemplo_out(3) tabla_ejemplo_AAA(2,3))
  have r: "f23 = 115.28" "f38 = 112.36" "f50 = 110" "f61 = 107.64"
    using v(3-6) by (simp_all add: f0 f100)
  note g = f[unfolded f0 f100 r]
  show ?thesis
    by (rule exI[where x = ?out])
      (rule conjI[OF o conjI[OF m conjI[OF n conjI[OF g(1) conjI[OF g(2) conjI[OF g(3)
         conjI[OF g(4) conjI[OF g(5) g(6)]]]]]]]])
qed

section \<open>Nearest Fibonacci level\<close>

















section \<open>Bollinger bands\<close>

lemma sample_std_cases:
  "sample_std win = NaN \<or> (\<exists>s. sample_std win = Num s \<and> 0 \<le> s \<and> list_all is_num win)"
proof (cases "list_all is_num win")
  case False
  then show ?thesis by (simp add: sample_std_def)
next
  case True
  let ?vs = "map the_num win"
  let ?m = "sum_list ?vs / real (length ?vs)"
  let ?q = "sum_list (map (\<lambda>v. (v - ?m)\<^sup>2) ?vs)"
  have q: "0 \<le> ?q" by (rule sum_list_nonneg) auto
  have "0 \<le> ?q / (real (length ?vs) - 1)"
  proof (cases win)
    case Nil
    then show ?thesis by simp
  next
    case (Cons a list)
    then have "0 \<le> real (length ?vs) - 1" by simp
    with q show ?thesis by (rule divide_nonneg_nonneg)
  qed
  then have "0 \<le> sqrt (?q / (real (length ?vs) - 1))" by simp
  with True show ?thesis by (simp add: sample_std_def Let_def)
qed

lemma list_all_is_num_map: "list_all is_num (map Num vs)"
  by (simp add: list_all_iff)

lemma fadd_NaN_right: "fadd x NaN = NaN"
  by (cases x) simp_all

lemma bollinger_cells:
  assumes "i < length c" and "fadd (rolling_mean 20 c ! i) (fmul (Num 2) (rolling_std 20 c ! i)) \<noteq> NaN"
  shows "\<exists>m s. rolling_mean 20 c ! i = Num m \<and> rolling_std 20 c ! i = Num s \<and> 0 \<le> s"
proof -
  let ?M = "rolling_mean 20 c ! i" and ?S = "rolling_std 20 c ! i"
  from assms(2) have S: "?S \<noteq> NaN" by (auto simp: fadd_NaN_right)
  let ?w = "window 20 (prep_values c) i"
  from S have early: "\<not> Suc i < 20" and st: "?S = sample_std ?w"
    using assms(1) by (auto simp: rolling_std_nth split: if_splits)
  from S st sample_std_cases[of ?w] obtain s where
    s: "?S = Num s" "0 \<le> s" "list_all is_num ?w"
    by auto
  from num_list[OF s(3)] have "fsum ?w = Num (sum_list (map the_num ?w))"
    using fsum_num by metis
  with early assms(1) have "?M = Num (sum_list (map the_num ?w) / 20)"
    by (simp add: rolling_mean_nth)
  with s show ?thesis by blast
qed

text \<open>
  C10. On every output row whose three Bollinger cells are not NaN, the cells and
  \<open>Volatility_20\<close> are numbers \<open>u\<close>, \<open>m\<close>, \<open>l\<close> and \<open>s\<close>, where \<open>m\<close> is the rolling
  mean and \<open>s\<close> the rolling standard deviation of the closes of the row's ticker
  over the 20 rows ending at that row, with \<open>u - m = m - l = 2 s\<close>, \<open>s \<ge> 0\<close> and
  hence \<open>l \<le> m \<le> u\<close> (exact arithmetic).
\<close>

theorem bollinger_envelope:
  assumes "calcular_indicadores_tecnicos input = Inr out" and "r \<in> set out"
    and "BB_Middle r \<noteq> NaN" and "BB_Upper r \<noteq> NaN" and "BB_Lower r \<noteq> NaN"
  shows "\<exists>u m l s. BB_Upper r = Num u \<and> BB_Middle r = Num m \<and> BB_Lower r = Num l \<and>
           Volatility_20 r = Num s \<and>
           u - m = 2 * s \<and> m - l = 2 * s \<and> 0 \<le> s \<and> l \<le> m \<and> m \<le> u \<and>
           (\<exists>i < length (get_group (sort_values input) (Ticker r)).
              r = filas_grupo (get_group (sort_values input) (Ticker r)) ! i \<and>
              rolling_mean 20 (map Close (get_group (sort_values input) (Ticker r))) ! i = Num m \<and>
              rolling_std 20 (map Close (get_group (sort_values input) (Ticker r))) ! i = Num s)"
proof -
  let ?g = "get_group (sort_values input) (Ticker r)"
  let ?c = "map Close ?g"
  from out_rows[OF assms(1,2)] obtain i where i: "i < length ?g" "r = filas_grupo ?g ! i"
    by blast
  note f = campos_filas_grupo(6-9)[OF i(1), folded i(2)]
  from i(1) have ic: "i < length ?c" by simp
  from assms(4) have "fadd (rolling_mean 20 ?c ! i) (fmul (Num 2) (rolling_std 20 ?c ! i)) \<noteq> NaN"
    unfolding f(2) .
  from bollinger_cells[OF ic this] obtain m s where
    ms: "rolling_mean 20 ?c ! i = Num m" "rolling_std 20 ?c ! i = Num s" "0 \<le> s"
    by blast
  have 1: "BB_Upper r = Num (m + 2 * s)" by (simp add: f(2) ms)
  have 2: "BB_Middle r = Num m" by (simp add: f(1) ms)
  have 3: "BB_Lower r = Num (m - 2 * s)" by (simp add: f(3) ms fsub_def)
  have 4: "Volatility_20 r = Num s" by (simp add: f(4) ms)
  have 5: "(m + 2 * s) - m = 2 * s" "m - (m - 2 * s) = 2 * s" "m - 2 * s \<le> m" "m \<le> m + 2 * s"
    using ms(3) by simp_all
  from 1 2 3 4 5 ms i show ?thesis by blast
qed


lemma bollinger_defined:
  assumes "list_all is_num c" and "i < length c" and "19 \<le> i"
  shows "\<exists>m s. rolling_mean 20 c ! i = Num m \<and> rolling_std 20 c ! i = Num s"
proof -
  note p = prep_values_id[OF assms(1)]
  have w: "list_all is_num (window 20 c i)" by (rule list_all_window[OF assms(1)])
  from sample_std_cases[of "window 20 c i"] w obtain s where "sample_std (window 20 c i) = Num s"
    by (auto simp: sample_std_def Let_def)
  with assms have s: "rolling_std 20 c ! i = Num s" by (simp add: rolling_std_nth p)
  from num_list[OF w] have "fsum (window 20 c i) = Num (sum_list (map the_num (window 20 c i)))"
    using fsum_num by metis
  with assms have "rolling_mean 20 c ! i = Num (sum_list (map the_num (window 20 c i)) / 20)"
    by (simp add: rolling_mean_nth p)
  with s show ?thesis by blast
qed

lemma tabla_20_AAA:
  "tabla_20 \<noteq> []"
  "length (get_group tabla_20 ''AAA'') = 20"
  "list_all is_num (map Close (get_group tabla_20 ''AAA''))"
  by (simp_all add: get_group_def tabla_20_def precio_def)

theorem bollinger_envelope_witness:
  "\<exists>out. calcular_indicadores_tecnicos tabla_20 = Inr out \<and>
     get_group out ''AAA'' ! 19 \<in> set out \<and>
     BB_Middle (get_group out ''AAA'' ! 19) \<noteq> NaN \<and>
     BB_Upper (get_group out ''AAA'' ! 19) \<noteq> NaN \<and>
     BB_Lower (get_group out ''AAA'' ! 19) \<noteq> NaN \<and>
     (\<exists>u m l s. BB_Upper (get_group out ''AAA'' ! 19) = Num u \<and>
        BB_Middle (get_group out ''AAA'' ! 19) = Num m \<and>
        BB_Lower (get_group out ''AAA'' ! 19) = Num l \<and>
        Volatility_20 (get_group out ''AAA'' ! 19) = Num s \<and>
        u - m = 2 * s \<and> m - l = 2 * s \<and> 0 \<le> s \<and> l \<le> m \<and> m \<le> u)"
proof -
  let ?out = "concat (frames tabla_20)"
  let ?g = "get_group (sort_values tabla_20) ''AAA''"
  let ?c = "map Close ?g"
  let ?r = "get_group ?out ''AAA'' ! 19"
  have o: "calcular_indicadores_tecnicos tabla_20 = Inr ?out"
    using tabla_20_AAA(1) by (simp add: calcular_indicadores_tecnicos_eq)
  have len: "length ?g = 20"
    by (simp only: length_get_group_sort_values tabla_20_AAA(2))
  have go: "get_group ?out ''AAA'' = filas_grupo ?g" by (rule get_group_out)
  have r: "?r = filas_grupo ?g ! 19" by (simp only: go)
  have "?r \<in> set (get_group ?out ''AAA'')"
    by (rule nth_mem) (simp add: go length_filas_grupo len)
  then have m: "?r \<in> set ?out" by (simp add: get_group_def)
  have i: "19 < length ?g" by (simp add: len)
  have num: "list_all is_num ?c"
    using tabla_20_AAA(3) by (simp add: list_all_iff set_get_group_sort_values)
  have ic: "19 < length ?c" using i by simp
  from bollinger_defined[OF num ic] obtain m0 s0 where
    ms: "rolling_mean 20 ?c ! 19 = Num m0" "rolling_std 20 ?c ! 19 = Num s0"
    by blast
  note f = campos_filas_grupo(6-8)[OF i, folded r]
  have d: "BB_Middle ?r \<noteq> NaN" "BB_Upper ?r \<noteq> NaN" "BB_Lower ?r \<noteq> NaN"
    unfolding f ms by (simp_all add: fsub_def)
  from bollinger_envelope[OF o m d] obtain u m' l s where
    "BB_Upper ?r = Num u \<and> BB_Middle ?r = Num m' \<and> BB_Lower ?r = Num l \<and>
        Volatility_20 ?r = Num s \<and>
        u - m' = 2 * s \<and> m' - l = 2 * s \<and> 0 \<le> s \<and> l \<le> m' \<and> m' \<le> u"
    by blast
  then have e: "\<exists>u m l s. BB_Upper ?r = Num u \<and> BB_Middle ?r = Num m \<and> BB_Lower ?r = Num l \<and>
        Volatility_20 ?r = Num s \<and>
        u - m = 2 * s \<and> m - l = 2 * s \<and> 0 \<le> s \<and> l \<le> m \<and> m \<le> u"
    by blast
  show ?thesis
    by (rule exI[where x = ?out])
      (rule conjI[OF o conjI[OF m conjI[OF d(1) conjI[OF d(2) conjI[OF d(3) e]]]]])
qed

section \<open>EMA_20 and the averages of the MACD\<close>

lemma columnas_ema_macd:
  "map EMA_20 (filas_grupo grp) = ewm_mean 20 (map Close grp)"
  "map MACD (filas_grupo grp) = fst (calcular_macd (map Close grp) 12 26 9)"
  "map MACD_Signal (filas_grupo grp) = fst (snd (calcular_macd (map Close grp) 12 26 9))"
  "map MACD_Hist (filas_grupo grp) = snd (snd (calcular_macd (map Close grp) 12 26 9))"
  by (rule nth_equalityI;
      simp add: filas_grupo_def Let_def length_ewm_mean length_calcular_macd)+


text \<open>
  C6. On a non-empty series of numbers \<open>c\<close> and for a span \<open>sp \<ge> 1\<close>,
  \<^verbatim>\<open>ewm(span=sp, adjust=False).mean()\<close> is a series of numbers \<open>e\<close> of the same length
  with \<open>e[0] = c[0]\<close> and \<open>e[i] = \<alpha> c[i] + (1 - \<alpha>) e[i-1]\<close> for \<open>\<alpha> = 2/(sp+1)\<close>: the
  average is seeded at the first observation. \<open>calcular_macd\<close> on \<open>c\<close> returns the
  difference \<open>m\<close> of the averages of \<open>c\<close> with \<open>\<alpha> = 2/13\<close> and \<open>\<alpha> = 2/27\<close>, the
  average \<open>g\<close> of \<open>m\<close> with \<open>\<alpha> = 2/10\<close>, and \<open>m - g\<close>, each average obeying the same
  recursion. For every ticker of an input table whose closes in date order are \<open>c\<close>,
  the column \<open>EMA_20\<close> of its output rows is the average of \<open>c\<close> with \<open>\<alpha> = 2/21\<close> and
  the columns \<open>MACD\<close>, \<open>MACD_Signal\<close> and \<open>MACD_Hist\<close> are \<open>m\<close>, \<open>g\<close> and \<open>m - g\<close>
  (exact arithmetic).
\<close>

theorem ewm_mean_recursion:
  assumes "c \<noteq> []" and "1 \<le> sp"
  shows "(\<exists>e. ewm_mean sp (map Num c) = map Num e \<and> ema_recursion (2 / (sp + 1)) c e) \<and>
    (\<exists>s l m g.
       ema_recursion (2 / 13) c s \<and> ema_recursion (2 / 27) c l \<and>
       m = map (\<lambda>(a, b). a - b) (zip s l) \<and> ema_recursion (2 / 10) m g \<and>
       calcular_macd (map Num c) 12 26 9
         = (map Num m, map Num g, map Num (map (\<lambda>(a, b). a - b) (zip m g))) \<and>
       (\<forall>input out t.
          calcular_indicadores_tecnicos input = Inr out \<and>
          map Close (get_group (sort_values input) t) = map Num c \<longrightarrow>
          (\<exists>e. ema_recursion (2 / 21) c e \<and> map EMA_20 (get_group out t) = map Num e) \<and>
          map MACD (get_group out t) = map Num m \<and>
          map MACD_Signal (get_group out t) = map Num g \<and>
          map MACD_Hist (get_group out t) = map Num (map (\<lambda>(a, b). a - b) (zip m g))))"
proof -
  have 1: "\<exists>e. ewm_mean sp (map Num c) = map Num e \<and> ema_recursion (2 / (sp + 1)) c e"
    by (rule ewm_mean_ema_recursion[OF assms(1)])
  from calcular_macd_num[OF assms(1)] obtain s l m g where
    r: "ema_recursion (2 / 13) c s" "ema_recursion (2 / 27) c l"
       "m = map (\<lambda>(a, b). a - b) (zip s l)" "ema_recursion (2 / 10) m g"
    and k: "calcular_macd (map Num c) 12 26 9
         = (map Num m, map Num g, map Num (map (\<lambda>(a, b). a - b) (zip m g)))"
    by blast
  have 2: "(\<exists>e. ema_recursion (2 / 21) c e \<and> map EMA_20 (get_group out t) = map Num e) \<and>
          map MACD (get_group out t) = map Num m \<and>
          map MACD_Signal (get_group out t) = map Num g \<and>
          map MACD_Hist (get_group out t) = map Num (map (\<lambda>(a, b). a - b) (zip m g))"
    if h: "calcular_indicadores_tecnicos input = Inr out \<and>
          map Close (get_group (sort_values input) t) = map Num c" for input out t
  proof -
    from h have out: "out = concat (frames input)"
      by (simp add: calcular_indicadores_tecnicos_eq split: if_splits)
    have go: "get_group out t = filas_grupo (get_group (sort_values input) t)"
      by (simp only: out get_group_out)
    from h have cl: "map Close (get_group (sort_values input) t) = map Num c" by simp
    from ewm_mean_ema_recursion[OF assms(1), of 20] obtain e where
      e: "ewm_mean 20 (map Num c) = map Num e" "ema_recursion (2 / 21) c e" by auto
    have a: "map EMA_20 (get_group out t) = map Num e"
      by (simp only: go columnas_ema_macd(1) cl e(1))
    have b: "map MACD (get_group out t) = map Num m"
      by (simp only: go columnas_ema_macd(2) cl k fst_conv)
    have c: "map MACD_Signal (get_group out t) = map Num g"
      by (simp only: go columnas_ema_macd(3) cl k fst_conv snd_conv)
    have d: "map MACD_Hist (get_group out t) = map Num (map (\<lambda>(a, b). a - b) (zip m g))"
      by (simp only: go columnas_ema_macd(4) cl k snd_conv)
    from e(2) a b c d show ?thesis by blast
  qed
  from 1 r k 2 show ?thesis by blast
qed

lemma tabla_ejemplo_AAA_closes:
  "map Close (get_group (sort_values tabla_ejemplo) ''AAA'') = map Num [100, 120, 110]"
  by (simp add: get_group_def sort_values_def tabla_ejemplo_def precio_def less_eq_prod_def)

theorem ewm_mean_recursion_witness:
  "[100, 120, 110] \<noteq> ([] :: real list) \<and> (1::real) \<le> 20 \<and>
   ewm_mean 20 (map Num [100, 120, 110]) = map Num [100, 2140 / 21, 45280 / 441] \<and>
   calcular_macd (map Num [100, 120, 110]) 12 26 9
     = (map Num [0, 560 / 351, 250040 / 123201], map Num [0, 112 / 351, 407288 / 616005],
        map Num [0, 448 / 351, 842912 / 616005]) \<and>
   (\<exists>out. calcular_indicadores_tecnicos tabla_ejemplo = Inr out \<and>
      map Close (get_group (sort_values tabla_ejemplo) ''AAA'') = map Num [100, 120, 110] \<and>
      map EMA_20 (get_group out ''AAA'') = map Num [100, 2140 / 21, 45280 / 441] \<and>
      map MACD (get_group out ''AAA'') = map Num [0, 560 / 351, 250040 / 123201] \<and>
      map MACD_Signal (get_group out ''AAA'') = map Num [0, 112 / 351, 407288 / 616005] \<and>
      map MACD_Hist (get_group out ''AAA'') = map Num [0, 448 / 351, 842912 / 616005])"
proof -
  let ?c = "[100, 120, 110 :: real]"
  let ?out = "concat (frames tabla_ejemplo)"
  have h: "?c \<noteq> []" "(1::real) \<le> 20" by simp_all
  note o = tabla_ejemplo_out(1)
  note cl = tabla_ejemplo_AAA_closes
  from ewm_mean_recursion[OF h] obtain e0 s l m g where
    e0: "ewm_mean 20 (map Num ?c) = map Num e0" "ema_recursion (2 / (20 + 1)) ?c e0"
    and r: "ema_recursion (2 / 13) ?c s" "ema_recursion (2 / 27) ?c l"
       "m = map (\<lambda>(a, b). a - b) (zip s l)" "ema_recursion (2 / 10) m g"
    and k: "calcular_macd (map Num ?c) 12 26 9
         = (map Num m, map Num g, map Num (map (\<lambda>(a, b). a - b) (zip m g)))"
    and eng: "\<And>input out t.
          calcular_indicadores_tecnicos input = Inr out \<and>
          map Close (get_group (sort_values input) t) = map Num ?c \<Longrightarrow>
          (\<exists>e. ema_recursion (2 / 21) ?c e \<and> map EMA_20 (get_group out t) = map Num e) \<and>
          map MACD (get_group out t) = map Num m \<and>
          map MACD_Signal (get_group out t) = map Num g \<and>
          map MACD_Hist (get_group out t) = map Num (map (\<lambda>(a, b). a - b) (zip m g))"
    by blast
  from ema_recursion_unique[OF e0(2)] have v0: "e0 = [100, 2140 / 21, 45280 / 441]" by simp
  from ema_recursion_unique[OF r(1)] have vs: "s = [100, 1340 / 13, 17600 / 169]" by simp
  from ema_recursion_unique[OF r(2)] have vl: "l = [100, 2740 / 27, 74440 / 729]" by simp
  from r(3) have vm: "m = [0, 560 / 351, 250040 / 123201]" by (simp add: vs vl)
  from ema_recursion_unique[OF r(4)[unfolded vm]]
  have vg: "g = [0, 112 / 351, 407288 / 616005]" by simp
  have vh: "map (\<lambda>(a, b). a - b) (zip m g) = [0, 448 / 351, 842912 / 616005]"
    by (simp add: vm vg)
  note 1 = e0(1)[unfolded v0]
  note 2 = k[unfolded vh, unfolded vm vg]
  from eng[OF conjI[OF o cl]] obtain e where
    e: "ema_recursion (2 / 21) ?c e" "map EMA_20 (get_group ?out ''AAA'') = map Num e"
    and mm: "map MACD (get_group ?out ''AAA'') = map Num m"
       "map MACD_Signal (get_group ?out ''AAA'') = map Num g"
       "map MACD_Hist (get_group ?out ''AAA'') = map Num (map (\<lambda>(a, b). a - b) (zip m g))"
    by blast
  from ema_recursion_unique[OF e(1)] have ve: "e = [100, 2140 / 21, 45280 / 441]" by simp
  note 3 = e(2)[unfolded ve]
  note 4 = mm(1)[unfolded vm] mm(2)[unfolded vg] mm(3)[unfolded vh]
  have 5: "\<exists>out. calcular_indicadores_tecnicos tabla_ejemplo = Inr out \<and>
      map Close (get_group (sort_values tabla_ejemplo) ''AAA'') = map Num [100, 120, 110] \<and>
      map EMA_20 (get_group out ''AAA'') = map Num [100, 2140 / 21, 45280 / 441] \<and>
      map MACD (get_group out ''AAA'') = map Num [0, 560 / 351, 250040 / 123201] \<and>
      map MACD_Signal (get_group out ''AAA'') = map Num [0, 112 / 351, 407288 / 616005] \<and>
      map MACD_Hist (get_group out ''AAA'') = map Num [0, 448 / 351, 842912 / 616005]"
    by (rule exI[where x = ?out])
       (rule conjI[OF o conjI[OF cl conjI[OF 3 conjI[OF 4(1) conjI[OF 4(2) 4(3)]]]]])
  show ?thesis
    by (rule conjI[OF h(1) conjI[OF h(2) conjI[OF 1 conjI[OF 2 5]]]])
qed

section \<open>VariationEngine\<close>

lemma ffill_from_num: "ffill_from prev (map Num cs) = map Num cs"
  by (induction cs arbitrary: prev) simp_all

lemma ffill_num: "ffill (map Num cs) = map Num cs"
  by (simp add: ffill_def ffill_from_num)

lemma shift_nth:
  "i < length xs \<Longrightarrow> shift n xs ! i = (if i < n then NaN else xs ! (i - n))"
  by (auto simp: shift_def nth_append min_def)

lemma length_ffill_from: "length (ffill_from prev xs) = length xs"
  by (induction xs arbitrary: prev) simp_all

lemma length_filled: "length (if fill then ffill xs else xs) = length xs"
  by (simp add: ffill_def length_ffill_from)

lemma length_pct_change: "length (pct_change fill n xs) = length xs"
  by (simp add: pct_change_def Let_def length_filled length_shift del: if_split)

lemma fl64_literals: "fl64 0 = 0" "fl64 (- 1) = - 1" "round_np 4 (- 1) = - 1"
  by (simp_all add: round_np_def fl64_eval)

lemma fround_pct_cell: "fround_np 4 (fsub64 (fdiv64 x y) (Num 1)) = var_cell x y"
  by (cases x; cases y) (simp_all add: fsub64_def fdiv64_def fsub_def fl64_literals)

lemma pct_change_cell:
  assumes "i < length xs"
  shows "fround_np 4 (pct_change fill lag xs ! i)
           = var_spec lag (if fill then ffill xs else xs) i"
proof -
  let ?F = "if fill then ffill xs else xs"
  have l: "i < length ?F" using assms by (simp only: length_filled)
  have c: "pct_change fill lag xs ! i = fsub64 (fdiv64 (?F ! i) (shift lag ?F ! i)) (Num 1)"
    using l by (simp add: pct_change_def Let_def length_shift del: if_split)
  have sh: "shift lag ?F ! i = (if i < lag then NaN else ?F ! (i - lag))"
    by (rule shift_nth[OF l])
  show ?thesis
  proof (cases "i < lag")
    case True
    have "fround_np 4 (fsub64 (fdiv64 (?F ! i) NaN) (Num 1)) = NaN"
      by (simp only: fround_pct_cell) (cases "?F ! i"; simp)
    with True show ?thesis unfolding c sh by (simp add: var_spec_def del: if_split)
  next
    case False
    then show ?thesis unfolding c sh var_spec_def by (simp only: fround_pct_cell if_False)
  qed
qed

lemma pct_change_series:
  "map (fround_np 4) (pct_change fill lag xs)
     = map (var_spec lag (if fill then ffill xs else xs)) [0..<length xs]"
  by (rule nth_equalityI) (simp_all add: length_pct_change pct_change_cell del: if_split)

lemma group_ranks:
  "map (group_rank df) (filter (\<lambda>p. Ticker (df ! p) = t) [0..<length df])
     = [0..<length (get_group df t)]"
proof (induction df rule: rev_induct)
  case Nil
  then show ?case by (simp add: get_group_def)
next
  case (snoc x xs)
  let ?n = "length xs"
  have f: "filter (\<lambda>p. Ticker ((xs @ [x]) ! p) = t) [0..<?n]
           = filter (\<lambda>p. Ticker (xs ! p) = t) [0..<?n]"
    by (rule filter_cong) (simp_all add: nth_append)
  have old: "map (group_rank (xs @ [x])) (filter (\<lambda>p. Ticker ((xs @ [x]) ! p) = t) [0..<?n])
             = map (group_rank xs) (filter (\<lambda>p. Ticker (xs ! p) = t) [0..<?n])"
    unfolding f
  proof (rule map_cong[OF refl])
    fix p assume "p \<in> set (filter (\<lambda>p. Ticker (xs ! p) = t) [0..<?n])"
    then have "p < ?n" by simp
    then show "group_rank (xs @ [x]) p = group_rank xs p"
      by (simp add: group_rank_def nth_append)
  qed
  have new: "group_rank (xs @ [x]) ?n = length (get_group xs (Ticker x))"
    by (simp add: group_rank_def)
  show ?case
  proof (cases "Ticker x = t")
    case True
    then show ?thesis
      using old new snoc.IH by (simp add: get_group_def)
  next
    case False
    then show ?thesis
      using old snoc.IH by (simp add: get_group_def)
  qed
qed


lemma length_var_column: "length (var_column fill days df) = length df"
  by (simp add: var_column_def)

lemma positions_group:
  "map (\<lambda>p. f (df ! p)) (filter (\<lambda>p. Ticker (df ! p) = t) [0..<length df])
     = map f (get_group df t)"
proof -
  have "get_group df t = filter (\<lambda>r. Ticker r = t) (map (nth df) [0..<length df])"
    by (simp only: map_nth get_group_def)
  also have "\<dots> = map (nth df) (filter (\<lambda>p. Ticker (df ! p) = t) [0..<length df])"
    by (simp add: filter_map comp_def)
  finally show ?thesis by (simp add: comp_def)
qed

lemma var_column_group:
  "map (\<lambda>p. var_column fill days df ! p) (filter (\<lambda>p. Ticker (df ! p) = t) [0..<length df])
     = map (fround_np 4) (pct_change fill days (map Close (get_group df t)))"
proof -
  let ?S = "map (fround_np 4) (pct_change fill days (map Close (get_group df t)))"
  let ?ps = "filter (\<lambda>p. Ticker (df ! p) = t) [0..<length df]"
  have "map (\<lambda>p. var_column fill days df ! p) ?ps = map (\<lambda>p. ?S ! group_rank df p) ?ps"
  proof (rule map_cong[OF refl])
    fix p assume "p \<in> set ?ps"
    then have "p < length df" "Ticker (df ! p) = t" by simp_all
    then show "var_column fill days df ! p = ?S ! group_rank df p"
      by (simp add: var_column_def)
  qed
  also have "\<dots> = map (\<lambda>k. ?S ! k) (map (group_rank df) ?ps)" by (simp add: comp_def)
  also have "\<dots> = map (\<lambda>k. ?S ! k) [0..<length ?S]"
    by (simp only: group_ranks length_map length_pct_change)
  also have "\<dots> = ?S" by (rule map_nth)
  finally show ?thesis .
qed

lemma get_group_variaciones:
  "get_group (calcular_variaciones_precios fill input) t =
     map (\<lambda>p. \<lparr>Date = Date (sort_values input ! p), Ticker = Ticker (sort_values input ! p),
                Close = Close (sort_values input ! p),
                var_daily = var_column fill 1 (sort_values input) ! p,
                var_weekly = var_column fill 5 (sort_values input) ! p,
                var_monthly = var_column fill 21 (sort_values input) ! p,
                var_annual = var_column fill 252 (sort_values input) ! p,
                var_5y = var_column fill (252 * 5) (sort_values input) ! p\<rparr>)
       (filter (\<lambda>p. Ticker (sort_values input ! p) = t) [0..<length (sort_values input)])"
  by (simp add: calcular_variaciones_precios_def Let_def get_group_def filter_map comp_def)

text \<open>
  C2 (as amended). For every ticker \<open>t\<close>, with \<open>cs\<close> its closes in date order after
  pandas' default filling (each missing close replaced by the ticker's last earlier
  close before pandas 3.0, no filling from 3.0 on), the output rows of the ticker
  are its input rows in date order, and for each lag in 1, 5, 21, 252, 1260 the
  variation cell of its \<open>i\<close>-th row is \<open>var_spec lag cs i\<close>: NaN on the first \<open>lag\<close>
  rows and where one of the two closes is missing; the float64 value of
  \<open>cs[i] / cs[i-lag] - 1\<close> rounded to 4 decimals by numpy where both are numbers and
  \<open>cs[i-lag]\<close> is not zero; and, where \<open>cs[i-lag]\<close> is zero, \<open>+inf\<close> for a positive
  \<open>cs[i]\<close>, \<open>-inf\<close> for a negative one and NaN only for \<open>0/0\<close>. No case raises an
  exception.
\<close>

theorem variaciones_por_lag:
  "let out = calcular_variaciones_precios fill input;
       closes = map Close (get_group (sort_values input) t);
       cs = (if fill then ffill closes else closes)
   in map (\<lambda>r. (Date r, Ticker r, Close r)) (get_group out t)
        = map (\<lambda>r. (Date r, Ticker r, Close r)) (get_group (sort_values input) t) \<and>
      map var_daily (get_group out t) = map (var_spec 1 cs) [0..<length cs] \<and>
      map var_weekly (get_group out t) = map (var_spec 5 cs) [0..<length cs] \<and>
      map var_monthly (get_group out t) = map (var_spec 21 cs) [0..<length cs] \<and>
      map var_annual (get_group out t) = map (var_spec 252 cs) [0..<length cs] \<and>
      map var_5y (get_group out t) = map (var_spec 1260 cs) [0..<length cs]"
proof -
  let ?df = "sort_values input"
  let ?out = "calcular_variaciones_precios fill input"
  let ?closes = "map Close (get_group ?df t)"
  let ?cs = "if fill then ffill ?closes else ?closes"
  have len: "length ?cs = length ?closes" by (rule length_filled)
  have col: "map (\<lambda>p. var_column fill days ?df ! p)
               (filter (\<lambda>p. Ticker (?df ! p) = t) [0..<length ?df])
             = map (var_spec days ?cs) [0..<length ?cs]" for days
    unfolding var_column_group len by (rule pct_change_series)
  have 0: "map (\<lambda>r. (Date r, Ticker r, Close r)) (get_group ?out t)
              = map (\<lambda>r. (Date r, Ticker r, Close r)) (get_group ?df t)"
    unfolding get_group_variaciones
    using positions_group[of "\<lambda>r. (Date r, Ticker r, Close r)" ?df t]
    by (simp add: comp_def)
  have 1: "map var_daily (get_group ?out t) = map (var_spec 1 ?cs) [0..<length ?cs]"
    unfolding get_group_variaciones using col[of 1] by (simp add: comp_def del: if_split)
  have 2: "map var_weekly (get_group ?out t) = map (var_spec 5 ?cs) [0..<length ?cs]"
    unfolding get_group_variaciones using col[of 5] by (simp add: comp_def del: if_split)
  have 3: "map var_monthly (get_group ?out t) = map (var_spec 21 ?cs) [0..<length ?cs]"
    unfolding get_group_variaciones using col[of 21] by (simp add: comp_def del: if_split)
  have 4: "map var_annual (get_group ?out t) = map (var_spec 252 ?cs) [0..<length ?cs]"
    unfolding get_group_variaciones using col[of 252] by (simp add: comp_def del: if_split)
  have 5: "map var_5y (get_group ?out t) = map (var_spec 1260 ?cs) [0..<length ?cs]"
    unfolding get_group_variaciones using col[of "252 * 5"] by (simp add: comp_def del: if_split)
  show ?thesis unfolding Let_def by (rule conjI[OF 0 conjI[OF 1 conjI[OF 2 conjI[OF 3 conjI[OF 4 5]]]]])
qed

text \<open>A ticker with closes 0 then 5: the daily variation of the second row divides by
  zero and is \<open>+inf\<close>, not NaN, whatever the default filling.\<close>

theorem division_by_zero_gives_infinity:
  "\<forall>fill. map Close (calcular_variaciones_precios fill tabla_cero) = [Num 0, Num 5] \<and>
          map var_daily (calcular_variaciones_precios fill tabla_cero) = [NaN, PInf]"
  by code_simp

lemma tabla_variacion_AAA:
  "map Close (get_group (sort_values tabla_variacion) ''AAA'') = map Num [100, 110, 121]"
  by (simp add: get_group_def sort_values_def tabla_variacion_def precio_def less_eq_prod_def)

lemma tabla_redondeo_C:
  "map Close (get_group (sort_values tabla_redondeo) ''C'') = map Num [10000, 10000.5]"
  by (simp add: get_group_def sort_values_def tabla_redondeo_def precio_def less_eq_prod_def)

lemma var_spec_ejemplos:
  "map (var_spec 1 (map Num [100, 110, 121])) [0, 1, 2] = [NaN, Num (fl64 0.1), Num (fl64 0.1)]"
  "map (var_spec 5 (map Num [100, 110, 121])) [0, 1, 2] = [NaN, NaN, NaN]"
  "map (var_spec 1 (map Num [10000, 10000.5])) [0, 1] = [NaN, Num (fl64 0.0001)]"
  by (simp_all add: var_spec_def round_np_def fl64_eval)

theorem variaciones_por_lag_witness:
  "map var_daily (get_group (calcular_variaciones_precios True tabla_variacion) ''AAA'')
     = [NaN, Num (fl64 0.1), Num (fl64 0.1)] \<and>
   map var_weekly (get_group (calcular_variaciones_precios True tabla_variacion) ''AAA'')
     = [NaN, NaN, NaN] \<and>
   map var_daily (get_group (calcular_variaciones_precios False tabla_redondeo) ''C'')
     = [NaN, Num (fl64 0.0001)]"
proof -
  have u: "[0..<length (map Num [100, 110, 121 :: real])] = [0, 1, 2]"
          "[0..<length (map Num [10000, 10000.5 :: real])] = [0, 1]"
    by (simp_all add: upt_rec)
  note a = variaciones_por_lag[of True tabla_variacion "''AAA''",
      unfolded Let_def tabla_variacion_AAA if_True ffill_num u var_spec_ejemplos]
  note b = variaciones_por_lag[of False tabla_redondeo "''C''",
      unfolded Let_def tabla_redondeo_C if_False u var_spec_ejemplos]
  from a have 1: "map var_daily (get_group (calcular_variaciones_precios True tabla_variacion) ''AAA'')
     = [NaN, Num (fl64 0.1), Num (fl64 0.1)]"
    and 2: "map var_weekly (get_group (calcular_variaciones_precios True tabla_variacion) ''AAA'')
     = [NaN, NaN, NaN]"
    by blast+
  from b have 3: "map var_daily (get_group (calcular_variaciones_precios False tabla_redondeo) ''C'')
     = [NaN, Num (fl64 0.0001)]"
    by blast
  show ?thesis by (rule conjI[OF 1 conjI[OF 2 3]])
qed

end
